theory Spec2Isabelle
  imports Main "HOL-Library.Word"
begin

section \<open>Values thrown by the code\<close>

text \<open>
  Every \<open>throw\<close> and every failed \<open>assert\<close> of the source is a value of \<open>js_error\<close>; a
  function that can throw returns \<open>js_error + 'a\<close>, with \<open>Inl\<close> for the value thrown.
\<close>

datatype js_error =
    AssertionError string
  | MoneroError string
  | Error string
  | TypeError string
  | SyntaxError string

section \<open>MoneroUtils\<close>

subsection \<open>What MoneroUtils requires from other modules\<close>

text \<open>
  The values that \<open>JSON.parse\<close> returns: null, a boolean, a number (modelled as an
  integer), a string, an array, or an object with its properties in order.
\<close>

datatype json =
    JsonNull
  | JsonBoolean bool
  | JsonNumber int
  | JsonString string
  | JsonArray "json list"
  | JsonObject "(string \<times> json) list"

text \<open>
  The WebAssembly module that \<open>LibraryUtils.getWasmModule()\<close> returns once it is loaded.
  Its exports are not part of these sources, so they are fields of a record.
  \<open>validate_address\<close> returns the error message (\<open>undefined\<close> is \<open>None\<close>). For the three
  converters the copying of the bytes to and from the module's heap (allocate, compare
  the pointer with the offset of the view and throw when they differ, write or read,
  free) is part of the field, which gives the outcome of these steps or the error thrown
  in them: \<open>malloc_binary_from_json\<close> gives the bytes that are read back from the address
  the module reports, \<open>binary_to_json\<close> and \<open>binary_blocks_to_json\<close> give the string the
  module returns for the bytes written to its heap.
\<close>

type_synonym Uint8Array = "8 word list"

record 'nt wasm_module =
  validate_address :: "string \<Rightarrow> 'nt option \<Rightarrow> string option"
  malloc_binary_from_json :: "json \<Rightarrow> js_error + Uint8Array"
  binary_to_json :: "Uint8Array \<Rightarrow> js_error + string"
  binary_blocks_to_json :: "Uint8Array \<Rightarrow> js_error + string"

text \<open>
  The other modules: \<open>GenUtils.isBase58\<close>, \<open>MoneroNetworkType.validate\<close> (which throws on
  a network type it rejects), \<open>LibraryUtils.getWasmModule()\<close> (\<open>undefined\<close> until the
  module is loaded), and of the language \<open>JSON.parse\<close> on a string and the conversion to
  a string that \<open>JSON.parse\<close> applies to an argument that is not one.
\<close>

record 'nt modules =
  isBase58 :: "string \<Rightarrow> bool"
  MoneroNetworkType_validate :: "'nt option \<Rightarrow> js_error + unit"
  getWasmModule :: "'nt wasm_module option"
  JSON_parse :: "string \<Rightarrow> js_error + json"
  ToString :: "json \<Rightarrow> string"

text \<open>
  The guard of the four functions that need the module is written
  \<^verbatim>\<open>
  if (LibraryUtils.getWasmModule() === undefined)
    throw MoneroError("WASM module is not loaded; call 'await LibraryUtils.loadKeysModule()' to load");
  \<close>
  \<open>MoneroError\<close> is a class: everywhere else it is constructed with \<open>new\<close>. Calling a
  class without \<open>new\<close> throws a \<open>TypeError\<close> before the constructor runs, so the value
  thrown by the guard is that \<open>TypeError\<close>, and no \<open>MoneroError\<close> with the message is ever
  made.
\<close>

definition WASM_NOT_LOADED :: string where
  "WASM_NOT_LOADED =
     ''WASM module is not loaded; call '' @ [CHR 0x27] @
     ''await LibraryUtils.loadKeysModule()'' @ [CHR 0x27] @ '' to load''"

definition CLASS_WITHOUT_NEW :: string where
  "CLASS_WITHOUT_NEW =
     ''Class constructor MoneroError cannot be invoked without '' @ [CHR 0x27] @ ''new'' @ [CHR 0x27]"

definition throw_MoneroError_call :: "string \<Rightarrow> js_error + 'a" where
  "throw_MoneroError_call message = Inl (TypeError CLASS_WITHOUT_NEW)"

subsection \<open>validateAddress, isValidAddress\<close>

text \<open>
  \<^verbatim>\<open>
  static validateAddress(address, networkType) {
    assert(typeof address === "string", "Address is not string");
    assert(address.length > 0, "Address is empty");
    assert(GenUtils.isBase58(address), "Address is not base 58");
    MoneroNetworkType.validate(networkType);
    if (LibraryUtils.getWasmModule() === undefined) throw MoneroError("WASM module is not loaded; ...");
    let errMsg = LibraryUtils.getWasmModule().validate_address(address, networkType);
    if (errMsg) throw new Error(errMsg);
  }
  \<close>
  The address is a string by its type here, so the first assertion holds. An error message
  is truthy when it is a string that is not empty.
\<close>

definition validateAddress ::
  "'nt modules \<Rightarrow> string \<Rightarrow> 'nt option \<Rightarrow> js_error + unit" where
  "validateAddress M address networkType =
     (if \<not> length address > 0 then Inl (AssertionError ''Address is empty'')
      else if \<not> isBase58 M address then Inl (AssertionError ''Address is not base 58'')
      else
        (case MoneroNetworkType_validate M networkType of
           Inl e \<Rightarrow> Inl e
         | Inr _ \<Rightarrow>
            (case getWasmModule M of
               None \<Rightarrow> throw_MoneroError_call WASM_NOT_LOADED
             | Some wasm \<Rightarrow>
                (case validate_address wasm address networkType of
                   None \<Rightarrow> Inr ()
                 | Some errMsg \<Rightarrow> if errMsg \<noteq> [] then Inl (Error errMsg) else Inr ()))))"

text \<open>
  \<^verbatim>\<open>
  static isValidAddress(address, networkType) {
    try { MoneroUtils.validateAddress(address); return true; }
    catch (e) { return false; }
  }
  \<close>
  The call passes one argument, so \<open>validateAddress\<close> runs with \<open>networkType\<close> undefined.
\<close>

definition isValidAddress ::
  "'nt modules \<Rightarrow> string \<Rightarrow> 'nt option \<Rightarrow> bool" where
  "isValidAddress M address networkType =
     (case validateAddress M address None of Inl e \<Rightarrow> False | Inr _ \<Rightarrow> True)"

subsection \<open>paymentIdsEqual\<close>

text \<open>
  A JavaScript string is a sequence of code units; \<open>s[i]\<close> is the unit at index \<open>i\<close>, and
  \<open>undefined\<close> when \<open>i\<close> is not below \<open>s.length\<close>. Only equality of units is used by the
  code, so a unit is modelled as a \<^typ>\<open>char\<close> and \<open>undefined\<close> as \<open>None\<close>.
\<close>

definition charAt :: "string \<Rightarrow> nat \<Rightarrow> char option" where
  "charAt s i = (if i < length s then Some (s ! i) else None)"

text \<open>
  The loop of \<open>MoneroUtils.paymentIdsEqual\<close>, from index \<open>i\<close> on:
  \<^verbatim>\<open>
  for (let i = 0; i < maxLength; i++) {
    if (i < paymentId1.length && i < paymentId2.length && paymentId1[i] !== paymentId2[i]) return false;
    if (i >= paymentId1.length && paymentId2[i] !== '0') return false;
    if (i >= paymentId2.length && paymentId1[i] !== '0') return false;
  }
  return true;
  \<close>
\<close>

function paymentIdsEqual_loop :: "string \<Rightarrow> string \<Rightarrow> nat \<Rightarrow> bool" where
  "paymentIdsEqual_loop paymentId1 paymentId2 i =
     (if i < max (length paymentId1) (length paymentId2) then
        (if i < length paymentId1 \<and> i < length paymentId2
              \<and> charAt paymentId1 i \<noteq> charAt paymentId2 i then False
         else if i \<ge> length paymentId1 \<and> charAt paymentId2 i \<noteq> Some (CHR ''0'') then False
         else if i \<ge> length paymentId2 \<and> charAt paymentId1 i \<noteq> Some (CHR ''0'') then False
         else paymentIdsEqual_loop paymentId1 paymentId2 (i + 1))
      else True)"
  by pat_completeness auto
termination
  by (relation "measure (\<lambda>(p1, p2, i). max (length p1) (length p2) - i)") auto

declare paymentIdsEqual_loop.simps [simp del]

definition paymentIdsEqual :: "string \<Rightarrow> string \<Rightarrow> bool" where
  "paymentIdsEqual paymentId1 paymentId2 = paymentIdsEqual_loop paymentId1 paymentId2 0"

subsection \<open>mergeTx\<close>

text \<open>
  \<open>MoneroUtils.mergeTx(txs, tx)\<close> walks the array, and at the first entry whose hash is
  strictly equal to the hash of \<open>tx\<close> calls \<open>aTx.merge(tx)\<close> and returns; when the walk ends
  it pushes \<open>tx\<close>. The class of the transactions is declared outside these sources, so
  the two methods used are parameters: \<open>getHash\<close> reads the hash (\<open>undefined\<close> being one of
  its values) and \<open>merge\<close> gives the entry as the in-place merge leaves it, or the error it
  throws. The array is mutated in place; the model returns the array as it is after the
  call, or the error that escapes the call.
\<close>

fun mergeTx :: "('tx \<Rightarrow> 'h) \<Rightarrow> ('tx \<Rightarrow> 'tx \<Rightarrow> 'e + 'tx) \<Rightarrow> 'tx list \<Rightarrow> 'tx \<Rightarrow> 'e + 'tx list" where
  "mergeTx getHash merge [] tx = Inr [tx]"
| "mergeTx getHash merge (aTx # txs) tx =
     (if getHash aTx = getHash tx then
        (case merge aTx tx of Inl e \<Rightarrow> Inl e | Inr aTx' \<Rightarrow> Inr (aTx' # txs))
      else
        (case mergeTx getHash merge txs tx of Inl e \<Rightarrow> Inl e | Inr txs' \<Rightarrow> Inr (aTx # txs')))"

subsection \<open>jsonToBinary, binaryToJson, binaryBlocksToJson\<close>

text \<open>
  Each converter first checks that the module is loaded, then hands the data to the
  module (see \<open>wasm_module\<close> for what the fields include).
\<close>

definition jsonToBinary :: "'nt modules \<Rightarrow> json \<Rightarrow> js_error + Uint8Array" where
  "jsonToBinary M json =
     (case getWasmModule M of
        None \<Rightarrow> throw_MoneroError_call WASM_NOT_LOADED
      | Some wasm \<Rightarrow> malloc_binary_from_json wasm json)"

definition binaryToJson :: "'nt modules \<Rightarrow> Uint8Array \<Rightarrow> js_error + json" where
  "binaryToJson M uint8arr =
     (case getWasmModule M of
        None \<Rightarrow> throw_MoneroError_call WASM_NOT_LOADED
      | Some wasm \<Rightarrow>
         (case binary_to_json wasm uint8arr of
            Inl e \<Rightarrow> Inl e
          | Inr ret_string \<Rightarrow> JSON_parse M ret_string))"

text \<open>
  \<open>Array.prototype.map\<close> with a callback that can throw: the entries are mapped in order
  and the first error ends the call.
\<close>

fun map_throw :: "('a \<Rightarrow> 'e + 'b) \<Rightarrow> 'a list \<Rightarrow> 'e + 'b list" where
  "map_throw f [] = Inr []"
| "map_throw f (x # xs) =
     (case f x of
        Inl e \<Rightarrow> Inl e
      | Inr y \<Rightarrow> (case map_throw f xs of Inl e \<Rightarrow> Inl e | Inr ys \<Rightarrow> Inr (y # ys)))"

text \<open>
  \<open>s.replace(pattern, replacement)\<close> with a pattern that is a string of one unit: the first
  occurrence is replaced, the rest of the string is kept.
\<close>

fun String_replace :: "string \<Rightarrow> char \<Rightarrow> string \<Rightarrow> string" where
  "String_replace [] pattern replacement = []"
| "String_replace (c # s) pattern replacement =
     (if c = pattern then replacement @ s else c # String_replace s pattern replacement)"

text \<open>
  What the last lines of \<open>binaryBlocksToJson\<close> do to the parsed reply depends on what the
  reply holds, so the property reads and the method calls are modelled on values.
  Reading a property of \<open>null\<close> throws; of an object it gives the property or
  \<open>undefined\<close> (\<open>None\<close>); of any other value it gives \<open>undefined\<close> for the names read here.
  The messages of the \<open>TypeError\<close>s are those of the engine; \<open>quoted\<close> puts a name in
  single quotes.
\<close>

definition quoted :: "string \<Rightarrow> string" where
  "quoted name = [CHR 0x27] @ name @ [CHR 0x27]"

definition get_property :: "json \<Rightarrow> string \<Rightarrow> js_error + json option" where
  "get_property v name =
     (case v of
        JsonNull \<Rightarrow>
          Inl (TypeError (''Cannot read properties of null (reading '' @ quoted name @ '')''))
      | JsonObject properties \<Rightarrow> Inr (map_of properties name)
      | _ \<Rightarrow> Inr None)"

text \<open>
  \<open>v.map(callback)\<close> calls \<open>Array.prototype.map\<close> only when \<open>v\<close> is an array; this gives its
  entries. On \<open>undefined\<close> and \<open>null\<close> reading \<open>map\<close> throws, and on any other value \<open>v.map\<close>
  is not a function. \<open>expression\<close> is the text of \<open>v\<close> in the source, for the message.
\<close>

definition entries_for_map :: "string \<Rightarrow> json option \<Rightarrow> js_error + json list" where
  "entries_for_map expression v =
     (case v of
        None \<Rightarrow>
          Inl (TypeError (''Cannot read properties of undefined (reading '' @ quoted ''map'' @ '')''))
      | Some JsonNull \<Rightarrow>
          Inl (TypeError (''Cannot read properties of null (reading '' @ quoted ''map'' @ '')''))
      | Some (JsonArray entries) \<Rightarrow> Inr entries
      | Some _ \<Rightarrow> Inl (TypeError (expression @ ''.map is not a function'')))"

text \<open>\<open>json.name = v\<close> on an object: the property is replaced where it stands, or added.\<close>

fun set_property :: "(string \<times> json) list \<Rightarrow> string \<Rightarrow> json \<Rightarrow> (string \<times> json) list" where
  "set_property [] name v = [(name, v)]"
| "set_property ((k, x) # properties) name v =
     (if k = name then (k, v) # properties else (k, x) # set_property properties name v)"

definition assign_property :: "json \<Rightarrow> string \<Rightarrow> json \<Rightarrow> json" where
  "assign_property json name v =
     (case json of JsonObject properties \<Rightarrow> JsonObject (set_property properties name v) | _ \<Rightarrow> json)"

text \<open>The falsy values among these: null, false, 0 and the empty string.\<close>

fun json_truthy :: "json \<Rightarrow> bool" where
  "json_truthy JsonNull = False"
| "json_truthy (JsonBoolean b) = b"
| "json_truthy (JsonNumber n) = (n \<noteq> 0)"
| "json_truthy (JsonString s) = (s \<noteq> [])"
| "json_truthy (JsonArray _) = True"
| "json_truthy (JsonObject _) = True"

text \<open>
  \<open>JSON.parse(blockStr)\<close> on an entry of \<open>json.blocks\<close>: a string is parsed, any other value
  is converted to a string first.
\<close>

definition JSON_parse_value :: "'nt modules \<Rightarrow> json \<Rightarrow> js_error + json" where
  "JSON_parse_value M v =
     JSON_parse M (case v of JsonString s \<Rightarrow> s | _ \<Rightarrow> ToString M v)"

text \<open>
  \<open>JSON.parse(tx.replace(",", "{") + "}")\<close> on an entry of a transaction list: only a string
  has \<open>replace\<close>.
\<close>

definition parse_tx :: "'nt modules \<Rightarrow> json \<Rightarrow> js_error + json" where
  "parse_tx M tx =
     (case tx of
        JsonString s \<Rightarrow> JSON_parse M (String_replace s (CHR '','') ''{'' @ ''}'')
      | JsonNull \<Rightarrow>
          Inl (TypeError (''Cannot read properties of null (reading '' @ quoted ''replace'' @ '')''))
      | _ \<Rightarrow> Inl (TypeError ''tx.replace is not a function''))"

text \<open>\<open>txs ? txs.map(tx => ...) : []\<close> on an entry of \<open>json.txs\<close>.\<close>

definition parse_txs :: "'nt modules \<Rightarrow> json \<Rightarrow> js_error + json" where
  "parse_txs M txs =
     (if json_truthy txs then
        (case entries_for_map ''txs'' (Some txs) of
           Inl e \<Rightarrow> Inl e
         | Inr entries \<Rightarrow>
            (case map_throw (parse_tx M) entries of
               Inl e \<Rightarrow> Inl e
             | Inr parsed \<Rightarrow> Inr (JsonArray parsed)))
      else Inr (JsonArray []))"

text \<open>
  The last lines of \<open>binaryBlocksToJson\<close>, on the parsed reply:
  \<^verbatim>\<open>
  json.blocks = json.blocks.map(blockStr => JSON.parse(blockStr));
  json.txs = json.txs.map(txs => txs ? txs.map(tx => JSON.parse(tx.replace(",", "{") + "}")) : []);
  return json;
  \<close>
\<close>

definition parse_blocks_and_txs :: "'nt modules \<Rightarrow> json \<Rightarrow> js_error + json" where
  "parse_blocks_and_txs M json =
     (case get_property json ''blocks'' of
        Inl e \<Rightarrow> Inl e
      | Inr blocks \<Rightarrow>
         (case entries_for_map ''json.blocks'' blocks of
            Inl e \<Rightarrow> Inl e
          | Inr blockStrs \<Rightarrow>
             (case map_throw (JSON_parse_value M) blockStrs of
                Inl e \<Rightarrow> Inl e
              | Inr parsedBlocks \<Rightarrow>
                 (let json1 = assign_property json ''blocks'' (JsonArray parsedBlocks) in
                  case get_property json1 ''txs'' of
                    Inl e \<Rightarrow> Inl e
                  | Inr txs \<Rightarrow>
                     (case entries_for_map ''json.txs'' txs of
                        Inl e \<Rightarrow> Inl e
                      | Inr txLists \<Rightarrow>
                         (case map_throw (parse_txs M) txLists of
                            Inl e \<Rightarrow> Inl e
                          | Inr parsedTxs \<Rightarrow>
                             Inr (assign_property json1 ''txs'' (JsonArray parsedTxs))))))))"

definition binaryBlocksToJson :: "'nt modules \<Rightarrow> Uint8Array \<Rightarrow> js_error + json" where
  "binaryBlocksToJson M uint8arr =
     (case getWasmModule M of
        None \<Rightarrow> throw_MoneroError_call WASM_NOT_LOADED
      | Some wasm \<Rightarrow>
         (case binary_blocks_to_json wasm uint8arr of
            Inl e \<Rightarrow> Inl e
          | Inr json_str \<Rightarrow>
             (case JSON_parse M json_str of
                Inl e \<Rightarrow> Inl e
              | Inr json \<Rightarrow> parse_blocks_and_txs M json)))"

section \<open>MoneroTxFilter\<close>

subsection \<open>The entities a filter reads\<close>

text \<open>
  Of a \<open>MoneroTxWallet\<close> the filter reads eleven fields, through their getters; a field
  that is \<open>undefined\<close> is \<open>None\<close>. Transfers are read only by the nested transfer filter,
  so their type is a parameter. A block gives its header, a header its height.
\<close>

record MoneroBlockHeader =
  header_getHeight :: "int option"

record MoneroBlock =
  getHeader :: "MoneroBlockHeader option"

record 'tr MoneroTxWallet =
  getId :: "string option"
  getPaymentId :: "string option"
  getIsConfirmed :: "bool option"
  getInTxPool :: "bool option"
  getDoNotRelay :: "bool option"
  getIsRelayed :: "bool option"
  getIsFailed :: "bool option"
  getIsCoinbase :: "bool option"
  getOutgoingTransfer :: "'tr option"
  getIncomingTransfers :: "'tr list option"
  getBlock :: "MoneroBlock option"

subsection \<open>The state of a filter\<close>

text \<open>
  \<open>this.state\<close>, a field for each getter of the filter (\<open>getTxIds()\<close> returns
  \<open>this.state.txIds\<close>, and so on). The height of a block header is \<open>header_getHeight\<close>, to
  keep it apart from the filter's \<open>getHeight\<close>. The template transaction and the nested
  transfer filter are of types \<open>'t\<close> and \<open>'f\<close>: for a
  filter whose state is well-typed they are an optional \<open>MoneroTxWallet\<close> and an optional
  transfer filter.
\<close>

record ('t, 'f) filter_state =
  getTx :: 't
  getTransferFilter :: 'f
  getHasPaymentId :: "bool option"
  getHasOutgoingTransfer :: "bool option"
  getHasIncomingTransfers :: "bool option"
  getTxIds :: "string list option"
  getPaymentIds :: "string list option"
  getHeight :: "int option"
  getMinHeight :: "int option"
  getMaxHeight :: "int option"

type_synonym ('tr, 'tf) MoneroTxFilter = "('tr MoneroTxWallet option, 'tf option) filter_state"

subsection \<open>meetsCriteria\<close>

text \<open>
  The block "filter on tx": the eight comparisons against the template \<open>this.getTx()\<close>.
\<close>

definition filterOnTx :: "'tr MoneroTxWallet \<Rightarrow> 'tr MoneroTxWallet \<Rightarrow> bool" where
  "filterOnTx t tx =
     (if getId t \<noteq> None \<and> getId t \<noteq> getId tx then False
      else if getPaymentId t \<noteq> None \<and> getPaymentId t \<noteq> getPaymentId tx then False
      else if getIsConfirmed t \<noteq> None \<and> getIsConfirmed t \<noteq> getIsConfirmed tx then False
      else if getInTxPool t \<noteq> None \<and> getInTxPool t \<noteq> getInTxPool tx then False
      else if getDoNotRelay t \<noteq> None \<and> getDoNotRelay t \<noteq> getDoNotRelay tx then False
      else if getIsRelayed t \<noteq> None \<and> getIsRelayed t \<noteq> getIsRelayed tx then False
      else if getIsFailed t \<noteq> None \<and> getIsFailed t \<noteq> getIsFailed tx then False
      else if getIsCoinbase t \<noteq> None \<and> getIsCoinbase t \<noteq> getIsCoinbase tx then False
      else True)"

text \<open>
  The block "at least one transfer must meet transfer filter if defined": the value of
  \<open>matchFound\<close> when the block ends. \<open>meets\<close> is \<open>meetsCriteria\<close> of the nested transfer
  filter, whose class is outside these sources.
  \<^verbatim>\<open>
  let matchFound = false;
  if (tx.getOutgoingTransfer() && this.getTransferFilter().meetsCriteria(tx.getOutgoingTransfer())) matchFound = true;
  else if (tx.getIncomingTransfers()) {
    for (let incomingTransfer of tx.getIncomingTransfers()) {
      if (this.getTransferFilter().meetsCriteria(incomingTransfer)) { matchFound = true; break; }
    }
  }
  \<close>
\<close>

fun incomingTransfers_loop :: "('tr \<Rightarrow> bool) \<Rightarrow> 'tr list \<Rightarrow> bool" where
  "incomingTransfers_loop meets [] = False"
| "incomingTransfers_loop meets (incomingTransfer # incomingTransfers) =
     (if meets incomingTransfer then True else incomingTransfers_loop meets incomingTransfers)"

definition matchFound :: "('tf \<Rightarrow> 'tr \<Rightarrow> bool) \<Rightarrow> 'tf \<Rightarrow> 'tr MoneroTxWallet \<Rightarrow> bool" where
  "matchFound meets tf tx =
     (if (case getOutgoingTransfer tx of None \<Rightarrow> False | Some out \<Rightarrow> meets tf out) then True
      else
        (case getIncomingTransfers tx of
           None \<Rightarrow> False
         | Some incomingTransfers \<Rightarrow> incomingTransfers_loop (meets tf) incomingTransfers))"

text \<open>
  \<open>array.includes(x)\<close> for an array of strings: \<open>undefined\<close> is not among its entries.
\<close>

definition Array_includes :: "string list \<Rightarrow> string option \<Rightarrow> bool" where
  "Array_includes xs x = (case x of None \<Rightarrow> False | Some s \<Rightarrow> s \<in> set xs)"

text \<open>
  The height of the candidate, as the last block of \<open>meetsCriteria\<close> computes it:
  \<^verbatim>\<open>
  let height = tx.getBlock() === undefined || tx.getBlock().getHeader() === undefined
               ? undefined : tx.getBlock().getHeader().getHeight();
  \<close>
\<close>

definition height_of :: "'tr MoneroTxWallet \<Rightarrow> int option" where
  "height_of tx =
     (case getBlock tx of
        None \<Rightarrow> None
      | Some block \<Rightarrow> (case getHeader block of None \<Rightarrow> None | Some header \<Rightarrow> header_getHeight header))"

text \<open>
  The rest of \<open>meetsCriteria\<close>, from "filter on having a payment id" to the end. It reads
  only the scalar properties of the state.
\<close>

definition filterOnRest :: "('t, 'f) filter_state \<Rightarrow> 'tr MoneroTxWallet \<Rightarrow> bool" where
  "filterOnRest this tx =
     (if getHasPaymentId this \<noteq> None \<and> getHasPaymentId this = Some True \<and> getPaymentId tx = None
        then False
      else if getHasPaymentId this \<noteq> None \<and> getHasPaymentId this \<noteq> Some True \<and> getPaymentId tx \<noteq> None
        then False
      else if getHasOutgoingTransfer this \<noteq> None \<and> getHasOutgoingTransfer this = Some True
          \<and> getOutgoingTransfer tx = None
        then False
      else if getHasOutgoingTransfer this \<noteq> None \<and> getHasOutgoingTransfer this \<noteq> Some True
          \<and> getOutgoingTransfer tx \<noteq> None
        then False
      else if getHasIncomingTransfers this \<noteq> None \<and> getHasIncomingTransfers this = Some True
          \<and> (getIncomingTransfers tx = None \<or> getIncomingTransfers tx = Some [])
        then False
      else if getHasIncomingTransfers this \<noteq> None \<and> getHasIncomingTransfers this \<noteq> Some True
          \<and> getIncomingTransfers tx \<noteq> None \<and> getIncomingTransfers tx \<noteq> Some []
        then False
      else if (case getTxIds this of None \<Rightarrow> False | Some ids \<Rightarrow> \<not> Array_includes ids (getId tx))
        then False
      else if (case getPaymentIds this of None \<Rightarrow> False
               | Some ids \<Rightarrow> \<not> Array_includes ids (getPaymentId tx))
        then False
      else if getHeight this \<noteq> None \<and> height_of tx \<noteq> getHeight this then False
      else if (case getMinHeight this of None \<Rightarrow> False
               | Some m \<Rightarrow> (case height_of tx of None \<Rightarrow> True | Some h \<Rightarrow> h < m))
        then False
      else if (case getMaxHeight this of None \<Rightarrow> False
               | Some m \<Rightarrow> (case height_of tx of None \<Rightarrow> True | Some h \<Rightarrow> h > m))
        then False
      else True)"

text \<open>
  \<open>meetsCriteria(tx)\<close> of a filter whose state is well-typed. The candidate is a
  \<open>MoneroTxWallet\<close> by its type, so the assertion at the top holds, and \<open>this === tx\<close> is
  false since a filter is not a transaction.
\<close>

definition meetsCriteria ::
  "('tf \<Rightarrow> 'tr \<Rightarrow> bool) \<Rightarrow> ('tr, 'tf) MoneroTxFilter \<Rightarrow> 'tr MoneroTxWallet \<Rightarrow> bool" where
  "meetsCriteria meets this candidate =
     (if (case getTx this of None \<Rightarrow> False | Some t \<Rightarrow> \<not> filterOnTx t candidate) then False
      else if (case getTransferFilter this of None \<Rightarrow> False
               | Some tf \<Rightarrow> \<not> matchFound meets tf candidate) then False
      else filterOnRest this candidate)"

subsection \<open>The constructor, and meetsCriteria on the state as it is at run time\<close>

text \<open>
  The constructor receives any object and validates nothing, and the setters store any
  value. What the constructor does depends on the class of \<open>state.tx\<close> and
  \<open>state.transferFilter\<close> at run time, and \<open>meetsCriteria\<close> tests, compares and calls a
  method on the other properties, so the properties are values of the language: \<open>JNumber\<close>
  is a number (an integer here), \<open>JArray\<close> an array, \<open>JObject\<close> a plain object (the
  serialised form that the constructor deserialises), \<open>JTxWallet\<close> an instance of
  \<open>MoneroTxWallet\<close> and \<open>JTransferFilter\<close> an instance of \<open>MoneroTransferFilter\<close>.
\<close>

datatype ('tr, 'tf, 'o) js_value =
    JUndefined
  | JNull
  | JBoolean bool
  | JNumber int
  | JString string
  | JArray "('tr, 'tf, 'o) js_value list"
  | JObject 'o
  | JTxWallet "'tr MoneroTxWallet"
  | JTransferFilter 'tf

text \<open>\<open>this.state\<close> at run time: each property is any value, \<open>JUndefined\<close> when it is absent.\<close>

record ('tr, 'tf, 'o) js_state =
  state_tx :: "('tr, 'tf, 'o) js_value"
  state_transferFilter :: "('tr, 'tf, 'o) js_value"
  state_hasPaymentId :: "('tr, 'tf, 'o) js_value"
  state_hasOutgoingTransfer :: "('tr, 'tf, 'o) js_value"
  state_hasIncomingTransfers :: "('tr, 'tf, 'o) js_value"
  state_txIds :: "('tr, 'tf, 'o) js_value"
  state_paymentIds :: "('tr, 'tf, 'o) js_value"
  state_height :: "('tr, 'tf, 'o) js_value"
  state_minHeight :: "('tr, 'tf, 'o) js_value"
  state_maxHeight :: "('tr, 'tf, 'o) js_value"

text \<open>\<open>if (v)\<close> and \<open>!v\<close>: the falsy values are undefined, null, false, 0 and the empty string.\<close>

fun truthy :: "('tr, 'tf, 'o) js_value \<Rightarrow> bool" where
  "truthy JUndefined = False"
| "truthy JNull = False"
| "truthy (JBoolean b) = b"
| "truthy (JNumber n) = (n \<noteq> 0)"
| "truthy (JString s) = (s \<noteq> [])"
| "truthy (JArray _) = True"
| "truthy (JObject _) = True"
| "truthy (JTxWallet _) = True"
| "truthy (JTransferFilter _) = True"







definition setPaymentIds ::
  "('tr, 'tf, 'o) js_state \<Rightarrow> ('tr, 'tf, 'o) js_value \<Rightarrow> ('tr, 'tf, 'o) js_state" where
  "setPaymentIds this paymentIds = this\<lparr>state_paymentIds := paymentIds\<rparr>"

text \<open>
  A method call on a value. Only an instance of \<open>MoneroTxWallet\<close> has the getters that the
  block "filter on tx" calls, and only an instance of \<open>MoneroTransferFilter\<close> has
  \<open>meetsCriteria\<close> for a transfer; on any other truthy value the call is a \<open>TypeError\<close>.
\<close>

definition call_filterOnTx ::
  "('tr, 'tf, 'o) js_value \<Rightarrow> 'tr MoneroTxWallet \<Rightarrow> js_error + bool" where
  "call_filterOnTx v candidate =
     (case v of
        JTxWallet t \<Rightarrow> Inr (filterOnTx t candidate)
      | _ \<Rightarrow> Inl (TypeError ''this.getTx(...).getId is not a function''))"

definition call_meetsCriteria ::
  "('tf \<Rightarrow> 'tr \<Rightarrow> bool) \<Rightarrow> ('tr, 'tf, 'o) js_value \<Rightarrow> 'tr \<Rightarrow> js_error + bool" where
  "call_meetsCriteria meets v transfer =
     (case v of
        JTransferFilter tf \<Rightarrow> Inr (meets tf transfer)
      | _ \<Rightarrow> Inl (TypeError ''this.getTransferFilter(...).meetsCriteria is not a function''))"

fun incomingTransfers_loop_js :: "('tr \<Rightarrow> js_error + bool) \<Rightarrow> 'tr list \<Rightarrow> js_error + bool" where
  "incomingTransfers_loop_js call [] = Inr False"
| "incomingTransfers_loop_js call (incomingTransfer # incomingTransfers) =
     (case call incomingTransfer of
        Inl e \<Rightarrow> Inl e
      | Inr b \<Rightarrow> if b then Inr True else incomingTransfers_loop_js call incomingTransfers)"

definition matchFound_js ::
  "('tr \<Rightarrow> js_error + bool) \<Rightarrow> 'tr MoneroTxWallet \<Rightarrow> js_error + bool" where
  "matchFound_js call candidate =
     (case (case getOutgoingTransfer candidate of None \<Rightarrow> Inr False | Some out \<Rightarrow> call out) of
        Inl e \<Rightarrow> Inl e
      | Inr b \<Rightarrow>
         if b then Inr True
         else
           (case getIncomingTransfers candidate of
              None \<Rightarrow> Inr False
            | Some incomingTransfers \<Rightarrow> incomingTransfers_loop_js call incomingTransfers))"

text \<open>
  \<open>v.includes(x)\<close> with \<open>x\<close> the id or the payment id of the candidate, a string or
  \<open>undefined\<close>. An array includes \<open>x\<close> when one of its entries is \<open>x\<close>. A string has
  \<open>includes\<close> too: it converts \<open>x\<close> to a string (\<open>undefined\<close> to the text "undefined") and
  looks for it as a part of itself. These are the values that have \<open>includes\<close>: reading
  \<open>includes\<close> of \<open>null\<close> throws, and on any other value \<open>v.includes\<close> is not a function. The
  clause is not evaluated when \<open>v\<close> is \<open>undefined\<close>.
\<close>

definition js_value_of_string :: "string option \<Rightarrow> ('tr, 'tf, 'o) js_value" where
  "js_value_of_string x = (case x of None \<Rightarrow> JUndefined | Some s \<Rightarrow> JString s)"

definition String_includes :: "string \<Rightarrow> string \<Rightarrow> bool" where
  "String_includes s part =
     list_ex (\<lambda>i. take (length part) (drop i s) = part) [0..<Suc (length s)]"


definition call_includes ::
  "string \<Rightarrow> ('tr, 'tf, 'o) js_value \<Rightarrow> string option \<Rightarrow> js_error + bool" where
  "call_includes expression v x =
     (case v of
        JArray entries \<Rightarrow> Inr (js_value_of_string x \<in> set entries)
      | JString s \<Rightarrow> Inr (String_includes s (case x of None \<Rightarrow> ''undefined'' | Some part \<Rightarrow> part))
      | JNull \<Rightarrow>
          Inl (TypeError (''Cannot read properties of null (reading '' @ quoted ''includes'' @ '')''))
      | JUndefined \<Rightarrow>
          Inl (TypeError (''Cannot read properties of undefined (reading '' @ quoted ''includes'' @ '')''))
      | _ \<Rightarrow> Inl (TypeError (expression @ ''.includes is not a function'')))"

text \<open>
  \<open>height < v\<close> and \<open>height > v\<close> with \<open>height\<close> the height of the candidate, a number.
  Against a number the heights are compared; \<open>null\<close> counts as 0, \<open>false\<close> as 0 and \<open>true\<close>
  as 1, and every comparison with \<open>undefined\<close> is false. A string, an array or an object
  is first converted to a number by the language, which can throw; the comparison with
  such a value is a parameter. \<open>height !== v\<close> converts nothing: it is false only when \<open>v\<close>
  is the same number, or when both are \<open>undefined\<close>.
\<close>

record ('tr, 'tf, 'o) relational =
  lessThan_value :: "int \<Rightarrow> ('tr, 'tf, 'o) js_value \<Rightarrow> js_error + bool"
  greaterThan_value :: "int \<Rightarrow> ('tr, 'tf, 'o) js_value \<Rightarrow> js_error + bool"

definition height_lessThan ::
  "('tr, 'tf, 'o) relational \<Rightarrow> int \<Rightarrow> ('tr, 'tf, 'o) js_value \<Rightarrow> js_error + bool" where
  "height_lessThan R h v =
     (case v of
        JNumber m \<Rightarrow> Inr (h < m)
      | JNull \<Rightarrow> Inr (h < 0)
      | JBoolean b \<Rightarrow> Inr (h < (if b then 1 else 0))
      | JUndefined \<Rightarrow> Inr False
      | _ \<Rightarrow> lessThan_value R h v)"

definition height_greaterThan ::
  "('tr, 'tf, 'o) relational \<Rightarrow> int \<Rightarrow> ('tr, 'tf, 'o) js_value \<Rightarrow> js_error + bool" where
  "height_greaterThan R h v =
     (case v of
        JNumber m \<Rightarrow> Inr (h > m)
      | JNull \<Rightarrow> Inr (h > 0)
      | JBoolean b \<Rightarrow> Inr (h > (if b then 1 else 0))
      | JUndefined \<Rightarrow> Inr False
      | _ \<Rightarrow> greaterThan_value R h v)"

definition js_value_of_height :: "int option \<Rightarrow> ('tr, 'tf, 'o) js_value" where
  "js_value_of_height h = (case h of None \<Rightarrow> JUndefined | Some h \<Rightarrow> JNumber h)"

text \<open>
  The rest of \<open>meetsCriteria\<close>, from "filter on having a payment id" to the end, on the
  state at run time: the clauses of \<open>filterOnRest\<close> in the same order, with the flags
  tested for truthiness, the two calls of \<open>includes\<close> on values, and the heights compared
  as values.
\<close>

definition filterOnRest_js ::
  "('tr, 'tf, 'o) relational \<Rightarrow> ('tr, 'tf, 'o) js_state \<Rightarrow> 'tr MoneroTxWallet \<Rightarrow> js_error + bool" where
  "filterOnRest_js R this tx =
     (if state_hasPaymentId this \<noteq> JUndefined \<and> truthy (state_hasPaymentId this)
          \<and> getPaymentId tx = None
        then Inr False
      else if state_hasPaymentId this \<noteq> JUndefined \<and> \<not> truthy (state_hasPaymentId this)
          \<and> getPaymentId tx \<noteq> None
        then Inr False
      else if state_hasOutgoingTransfer this \<noteq> JUndefined \<and> truthy (state_hasOutgoingTransfer this)
          \<and> getOutgoingTransfer tx = None
        then Inr False
      else if state_hasOutgoingTransfer this \<noteq> JUndefined
          \<and> \<not> truthy (state_hasOutgoingTransfer this) \<and> getOutgoingTransfer tx \<noteq> None
        then Inr False
      else if state_hasIncomingTransfers this \<noteq> JUndefined
          \<and> truthy (state_hasIncomingTransfers this)
          \<and> (getIncomingTransfers tx = None \<or> getIncomingTransfers tx = Some [])
        then Inr False
      else if state_hasIncomingTransfers this \<noteq> JUndefined
          \<and> \<not> truthy (state_hasIncomingTransfers this)
          \<and> getIncomingTransfers tx \<noteq> None \<and> getIncomingTransfers tx \<noteq> Some []
        then Inr False
      else
        (case (if state_txIds this \<noteq> JUndefined
               then call_includes ''this.getTxIds(...)'' (state_txIds this) (getId tx)
               else Inr True) of
           Inl e \<Rightarrow> Inl e
         | Inr idIncluded \<Rightarrow>
            if \<not> idIncluded then Inr False
            else
              (case (if state_paymentIds this \<noteq> JUndefined
                     then call_includes ''this.getPaymentIds(...)'' (state_paymentIds this)
                            (getPaymentId tx)
                     else Inr True) of
                 Inl e \<Rightarrow> Inl e
               | Inr paymentIdIncluded \<Rightarrow>
                  if \<not> paymentIdIncluded then Inr False
                  else if state_height this \<noteq> JUndefined
                      \<and> js_value_of_height (height_of tx) \<noteq> state_height this
                    then Inr False
                  else
                    (case (if state_minHeight this \<noteq> JUndefined
                           then (case height_of tx of
                                   None \<Rightarrow> Inr True
                                 | Some h \<Rightarrow> height_lessThan R h (state_minHeight this))
                           else Inr False) of
                       Inl e \<Rightarrow> Inl e
                     | Inr tooLow \<Rightarrow>
                        if tooLow then Inr False
                        else
                          (case (if state_maxHeight this \<noteq> JUndefined
                                 then (case height_of tx of
                                         None \<Rightarrow> Inr True
                                       | Some h \<Rightarrow> height_greaterThan R h (state_maxHeight this))
                                 else Inr False) of
                             Inl e \<Rightarrow> Inl e
                           | Inr tooHigh \<Rightarrow> if tooHigh then Inr False else Inr True)))))"

text \<open>
  \<open>meetsCriteria(tx)\<close> on any state, with the candidate an instance of \<open>MoneroTxWallet\<close>:
  the same three parts as above, with \<open>if (this.getTx())\<close> and
  \<open>if (this.getTransferFilter())\<close> testing truthiness and the method calls failing on a
  value of the wrong class.
\<close>

definition meetsCriteria_js ::
  "('tf \<Rightarrow> 'tr \<Rightarrow> bool) \<Rightarrow> ('tr, 'tf, 'o) relational \<Rightarrow> ('tr, 'tf, 'o) js_state \<Rightarrow>
   'tr MoneroTxWallet \<Rightarrow> js_error + bool" where
  "meetsCriteria_js meets R this candidate =
     (case (if truthy (state_tx this) then call_filterOnTx (state_tx this) candidate else Inr True) of
        Inl e \<Rightarrow> Inl e
      | Inr ok \<Rightarrow>
         if \<not> ok then Inr False
         else
           (case (if truthy (state_transferFilter this)
                  then matchFound_js (call_meetsCriteria meets (state_transferFilter this)) candidate
                  else Inr True) of
              Inl e \<Rightarrow> Inl e
            | Inr found \<Rightarrow> if \<not> found then Inr False else filterOnRest_js R this candidate))"

text \<open>A well-typed filter state as a run-time state.\<close>

definition js_value_of_tx :: "'tr MoneroTxWallet option \<Rightarrow> ('tr, 'tf, 'o) js_value" where
  "js_value_of_tx t = (case t of None \<Rightarrow> JUndefined | Some t \<Rightarrow> JTxWallet t)"

definition js_value_of_transferFilter :: "'tf option \<Rightarrow> ('tr, 'tf, 'o) js_value" where
  "js_value_of_transferFilter f = (case f of None \<Rightarrow> JUndefined | Some f \<Rightarrow> JTransferFilter f)"

definition js_value_of_flag :: "bool option \<Rightarrow> ('tr, 'tf, 'o) js_value" where
  "js_value_of_flag b = (case b of None \<Rightarrow> JUndefined | Some b \<Rightarrow> JBoolean b)"

definition js_value_of_ids :: "string list option \<Rightarrow> ('tr, 'tf, 'o) js_value" where
  "js_value_of_ids ids = (case ids of None \<Rightarrow> JUndefined | Some ids \<Rightarrow> JArray (map JString ids))"

definition js_state_of :: "('tr, 'tf) MoneroTxFilter \<Rightarrow> ('tr, 'tf, 'o) js_state" where
  "js_state_of this =
     \<lparr>state_tx = js_value_of_tx (getTx this),
      state_transferFilter = js_value_of_transferFilter (getTransferFilter this),
      state_hasPaymentId = js_value_of_flag (getHasPaymentId this),
      state_hasOutgoingTransfer = js_value_of_flag (getHasOutgoingTransfer this),
      state_hasIncomingTransfers = js_value_of_flag (getHasIncomingTransfers this),
      state_txIds = js_value_of_ids (getTxIds this),
      state_paymentIds = js_value_of_ids (getPaymentIds this),
      state_height = js_value_of_height (getHeight this),
      state_minHeight = js_value_of_height (getMinHeight this),
      state_maxHeight = js_value_of_height (getMaxHeight this)\<rparr>"

section \<open>One filter's constraints among another's\<close>

text \<open>
  The relation of the monotonicity property, in the words of the specification: every
  clause set on \<open>F1\<close> is set identically on \<open>F2\<close>, and \<open>F2\<close> may set more. A clause is a
  property of the state or a field of the template; the template of \<open>F2\<close> sets a field
  when \<open>F2\<close> has a template and the field is set on it.
\<close>

definition setIdentically :: "'a option \<Rightarrow> 'a option \<Rightarrow> bool" where
  "setIdentically c1 c2 = (c1 = None \<or> c2 = c1)"

definition templateField :: "'tr MoneroTxWallet option \<Rightarrow> ('tr MoneroTxWallet \<Rightarrow> 'a option) \<Rightarrow> 'a option" where
  "templateField t field = (case t of None \<Rightarrow> None | Some t \<Rightarrow> field t)"

definition constraintsContained :: "('tr, 'tf) MoneroTxFilter \<Rightarrow> ('tr, 'tf) MoneroTxFilter \<Rightarrow> bool" where
  "constraintsContained F1 F2 =
     (setIdentically (templateField (getTx F1) getId) (templateField (getTx F2) getId)
      \<and> setIdentically (templateField (getTx F1) getPaymentId) (templateField (getTx F2) getPaymentId)
      \<and> setIdentically (templateField (getTx F1) getIsConfirmed) (templateField (getTx F2) getIsConfirmed)
      \<and> setIdentically (templateField (getTx F1) getInTxPool) (templateField (getTx F2) getInTxPool)
      \<and> setIdentically (templateField (getTx F1) getDoNotRelay) (templateField (getTx F2) getDoNotRelay)
      \<and> setIdentically (templateField (getTx F1) getIsRelayed) (templateField (getTx F2) getIsRelayed)
      \<and> setIdentically (templateField (getTx F1) getIsFailed) (templateField (getTx F2) getIsFailed)
      \<and> setIdentically (templateField (getTx F1) getIsCoinbase) (templateField (getTx F2) getIsCoinbase)
      \<and> setIdentically (getTransferFilter F1) (getTransferFilter F2)
      \<and> setIdentically (getHasPaymentId F1) (getHasPaymentId F2)
      \<and> setIdentically (getHasOutgoingTransfer F1) (getHasOutgoingTransfer F2)
      \<and> setIdentically (getHasIncomingTransfers F1) (getHasIncomingTransfers F2)
      \<and> setIdentically (getTxIds F1) (getTxIds F2)
      \<and> setIdentically (getPaymentIds F1) (getPaymentIds F2)
      \<and> setIdentically (getHeight F1) (getHeight F2)
      \<and> setIdentically (getMinHeight F1) (getMinHeight F2)
      \<and> setIdentically (getMaxHeight F1) (getMaxHeight F2))"

section \<open>Example inputs\<close>

text \<open>
  Stand-ins for the modules outside these sources, for the examples below: a base-58
  check, a network type check given as a parameter, a module whose address check accepts
  one address and which answers a request for no blocks (no bytes) with one reply and any
  other request with another, and a parser that knows the two replies and otherwise
  accepts a text in braces, returned as the one property of an object.
\<close>

definition example_wasm :: "nat wasm_module" where
  "example_wasm =
     \<lparr>validate_address = (\<lambda>address networkType. if address = ''4AdUndX'' then None else Some ''Invalid address''),
      malloc_binary_from_json = (\<lambda>json. Inr [1, 2]),
      binary_to_json = (\<lambda>uint8arr. Inr ''{}''),
      binary_blocks_to_json = (\<lambda>uint8arr. Inr (if uint8arr = [] then ''empty reply'' else ''reply''))\<rparr>"

text \<open>
  The reply for two blocks, the first with two transactions and the second with no
  transaction list, and the reply for no blocks, in which \<open>blocks\<close> and \<open>txs\<close> are the empty
  string.
\<close>

definition example_reply :: json where
  "example_reply =
     JsonObject
       [(''blocks'', JsonArray [JsonString ''{h:1}'', JsonString ''{h:2}'']),
        (''txs'', JsonArray [JsonArray [JsonString '',v:2,f:7'', JsonString '',v:1''], JsonNull]),
        (''status'', JsonString ''OK'')]"

definition example_empty_reply :: json where
  "example_empty_reply =
     JsonObject
       [(''blocks'', JsonString ''''), (''txs'', JsonString ''''), (''status'', JsonString ''OK'')]"

definition example_JSON_parse :: "string \<Rightarrow> js_error + json" where
  "example_JSON_parse s =
     (if s = ''reply'' then Inr example_reply
      else if s = ''empty reply'' then Inr example_empty_reply
      else if s \<noteq> [] \<and> hd s = CHR ''{'' \<and> last s = CHR ''}'' then Inr (JsonObject [(''text'', JsonString s)])
      else Inl (SyntaxError ''Unexpected token''))"

definition example_modules ::
  "(nat option \<Rightarrow> js_error + unit) \<Rightarrow> nat wasm_module option \<Rightarrow> nat modules" where
  "example_modules validate wasm =
     \<lparr>isBase58 =
        (\<lambda>s. list_all (\<lambda>c. c \<in> set ''123456789ABCDEFGHJKLMNPQRSTUVWXYZabcdefghijkmnopqrstuvwxyz'') s),
      MoneroNetworkType_validate = validate,
      getWasmModule = wasm,
      JSON_parse = example_JSON_parse,
      ToString = (\<lambda>v. ''[object Object]'')\<rparr>"

definition validate_strict :: "nat option \<Rightarrow> js_error + unit" where
  "validate_strict networkType =
     (case networkType of
        None \<Rightarrow> Inl (AssertionError ''Network type is invalid'')
      | Some n \<Rightarrow> if n \<le> 2 then Inr () else Inl (AssertionError ''Network type is invalid''))"

definition validate_lenient :: "nat option \<Rightarrow> js_error + unit" where
  "validate_lenient networkType = Inr ()"

text \<open>
  For the filter: a transaction with every field unknown, a state with no constraint but
  the given template and nested filter, and a nested transfer filter over transfers that
  are amounts, which a transfer meets when it is at least the filter's amount.
\<close>

definition tx_unknown :: "'tr MoneroTxWallet" where
  "tx_unknown =
     \<lparr>getId = None, getPaymentId = None, getIsConfirmed = None, getInTxPool = None,
      getDoNotRelay = None, getIsRelayed = None, getIsFailed = None, getIsCoinbase = None,
      getOutgoingTransfer = None, getIncomingTransfers = None, getBlock = None\<rparr>"

definition state_of :: "'t \<Rightarrow> 'f \<Rightarrow> ('t, 'f) filter_state" where
  "state_of t f =
     \<lparr>getTx = t, getTransferFilter = f, getHasPaymentId = None, getHasOutgoingTransfer = None,
      getHasIncomingTransfers = None, getTxIds = None, getPaymentIds = None, getHeight = None,
      getMinHeight = None, getMaxHeight = None\<rparr>"

definition block_at :: "int \<Rightarrow> MoneroBlock" where
  "block_at h = \<lparr>getHeader = Some \<lparr>header_getHeight = Some h\<rparr>\<rparr>"

definition at_least :: "nat \<Rightarrow> nat \<Rightarrow> bool" where
  "at_least minAmount amount = (minAmount \<le> amount)"

text \<open>
  Example transactions and filters: a template that sets the id and the confirmation
  flag, a candidate that matches it, a template that sets only fields the filter does not
  compare, a filter with a lower bound on the height, and two filters of which the
  second sets every clause of the first and more.
\<close>

definition template_abc :: "nat MoneroTxWallet" where
  "template_abc = tx_unknown\<lparr>getId := Some ''abc'', getIsConfirmed := Some True\<rparr>"

definition candidate_abc :: "nat MoneroTxWallet" where
  "candidate_abc =
     tx_unknown\<lparr>getId := Some ''abc'', getPaymentId := Some ''03284e41c342f032'',
       getIsConfirmed := Some True, getIncomingTransfers := Some [3, 8],
       getBlock := Some (block_at 100)\<rparr>"

definition template_transfers :: "nat MoneroTxWallet" where
  "template_transfers =
     tx_unknown\<lparr>getOutgoingTransfer := Some 5, getIncomingTransfers := Some [1],
       getBlock := Some (block_at 100)\<rparr>"

definition filter_minHeight_0 :: "(nat, nat) MoneroTxFilter" where
  "filter_minHeight_0 = (state_of None None)\<lparr>getMinHeight := Some 0\<rparr>"

definition filter_small :: "(nat, nat) MoneroTxFilter" where
  "filter_small =
     (state_of (Some (tx_unknown\<lparr>getIsConfirmed := Some True\<rparr>)) None)\<lparr>getMinHeight := Some 50\<rparr>"

definition filter_large :: "(nat, nat) MoneroTxFilter" where
  "filter_large =
     (state_of (Some template_abc) (Some 5))\<lparr>getHasPaymentId := Some True, getMinHeight := Some 50\<rparr>"






section \<open>Properties of MoneroUtils\<close>

subsection \<open>paymentIdsEqual\<close>

text \<open>One turn of the loop, and the loop from index \<open>i\<close> on.\<close>

lemma paymentIdsEqual_loop_step:
  "paymentIdsEqual_loop a b i \<longleftrightarrow>
     (i < max (length a) (length b) \<longrightarrow>
        (i < length a \<and> i < length b \<longrightarrow> a ! i = b ! i)
      \<and> (length a \<le> i \<longrightarrow> b ! i = CHR ''0'')
      \<and> (length b \<le> i \<longrightarrow> a ! i = CHR ''0'')
      \<and> paymentIdsEqual_loop a b (Suc i))"
proof -
  have "paymentIdsEqual_loop a b i =
     (if i < max (length a) (length b) then
        (if i < length a \<and> i < length b \<and> charAt a i \<noteq> charAt b i then False
         else if i \<ge> length a \<and> charAt b i \<noteq> Some (CHR ''0'') then False
         else if i \<ge> length b \<and> charAt a i \<noteq> Some (CHR ''0'') then False
         else paymentIdsEqual_loop a b (i + 1))
      else True)"
    by (rule paymentIdsEqual_loop.simps)
  also have "\<dots> \<longleftrightarrow> (i < max (length a) (length b) \<longrightarrow>
        (i < length a \<and> i < length b \<longrightarrow> a ! i = b ! i)
      \<and> (length a \<le> i \<longrightarrow> b ! i = CHR ''0'')
      \<and> (length b \<le> i \<longrightarrow> a ! i = CHR ''0'')
      \<and> paymentIdsEqual_loop a b (Suc i))"
    by (auto simp: charAt_def)
  finally show ?thesis .
qed

lemma paymentIdsEqual_loop_iff:
  "paymentIdsEqual_loop a b i \<longleftrightarrow>
     (\<forall>j. i \<le> j \<and> j < max (length a) (length b) \<longrightarrow>
        (j < length a \<and> j < length b \<longrightarrow> a ! j = b ! j)
      \<and> (length a \<le> j \<longrightarrow> b ! j = CHR ''0'')
      \<and> (length b \<le> j \<longrightarrow> a ! j = CHR ''0''))"
proof (induction "max (length a) (length b) - i" arbitrary: i)
  case 0
  then have fin: "\<not> i < max (length a) (length b)" by arith
  then have "paymentIdsEqual_loop a b i" by (subst paymentIdsEqual_loop_step) blast
  then show ?case using fin by auto
next
  case (Suc n)
  then have inb: "i < max (length a) (length b)" and n: "n = max (length a) (length b) - Suc i"
    by arith+
  note ih = Suc.hyps(1)[OF n]
  have split: "\<And>P. (\<forall>j. i \<le> j \<and> j < max (length a) (length b) \<longrightarrow> P j) \<longleftrightarrow>
      (P i \<and> (\<forall>j. Suc i \<le> j \<and> j < max (length a) (length b) \<longrightarrow> P j))"
    using inb by (metis Suc_leI le_neq_implies_less order_refl Suc_leD)
  have "paymentIdsEqual_loop a b i \<longleftrightarrow>
        (i < length a \<and> i < length b \<longrightarrow> a ! i = b ! i)
      \<and> (length a \<le> i \<longrightarrow> b ! i = CHR ''0'')
      \<and> (length b \<le> i \<longrightarrow> a ! i = CHR ''0'')
      \<and> paymentIdsEqual_loop a b (Suc i)"
    using paymentIdsEqual_loop_step[of a b i] inb by blast
  then show ?case
    unfolding ih by (subst split) blast
qed

text \<open>
  C4. Two payment ids are equal for \<open>paymentIdsEqual\<close> exactly when they agree at every
  index both have and the longer one has only the character 0 from the length of the
  shorter one on. So 03284e41c342f032 equals itself followed by 48 zeros, and
  03284e41c342f033 followed by 48 zeros does not equal 03284e41c342f032.
\<close>

theorem paymentIdsEqual_zero_padding:
  "(paymentIdsEqual a b \<longleftrightarrow>
      (\<forall>i. i < length a \<and> i < length b \<longrightarrow> a ! i = b ! i)
    \<and> (\<forall>i. length a \<le> i \<and> i < length b \<longrightarrow> b ! i = CHR ''0'')
    \<and> (\<forall>i. length b \<le> i \<and> i < length a \<longrightarrow> a ! i = CHR ''0''))
   \<and> paymentIdsEqual ''03284e41c342f032'' (''03284e41c342f032'' @ replicate 48 (CHR ''0''))
   \<and> \<not> paymentIdsEqual ''03284e41c342f032'' (''03284e41c342f033'' @ replicate 48 (CHR ''0''))"
proof (intro conjI)
  show "paymentIdsEqual a b \<longleftrightarrow>
      (\<forall>i. i < length a \<and> i < length b \<longrightarrow> a ! i = b ! i)
    \<and> (\<forall>i. length a \<le> i \<and> i < length b \<longrightarrow> b ! i = CHR ''0'')
    \<and> (\<forall>i. length b \<le> i \<and> i < length a \<longrightarrow> a ! i = CHR ''0'')"
    unfolding paymentIdsEqual_def paymentIdsEqual_loop_iff[of a b 0]
    by (auto simp: less_max_iff_disj)
  show "paymentIdsEqual ''03284e41c342f032'' (''03284e41c342f032'' @ replicate 48 (CHR ''0''))"
    by code_simp
  show "\<not> paymentIdsEqual ''03284e41c342f032'' (''03284e41c342f033'' @ replicate 48 (CHR ''0''))"
    by code_simp
qed

text \<open>
  The theorem at the ids ab and ab00, which are equal, at index 0 (shared) and index 3
  (padding), and at ab01 and ab, which are not.
\<close>

theorem paymentIdsEqual_zero_padding_witness:
  "paymentIdsEqual ''ab'' ''ab00''
   \<and> (0 < length ''ab'' \<and> 0 < length ''ab00'') \<and> ''ab'' ! 0 = ''ab00'' ! 0
   \<and> (length ''ab'' \<le> 3 \<and> 3 < length ''ab00'') \<and> ''ab00'' ! 3 = CHR ''0''
   \<and> \<not> paymentIdsEqual ''ab01'' ''ab''"
proof -
  have e: "paymentIdsEqual ''ab'' ''ab00''" by code_simp
  have n: "\<not> (\<forall>i. length ''ab'' \<le> i \<and> i < length ''ab01'' \<longrightarrow> ''ab01'' ! i = CHR ''0'')"
    by (auto intro: exI[of _ 3])
  show ?thesis
    using e n paymentIdsEqual_zero_padding[of "''ab''" "''ab00''"]
      paymentIdsEqual_zero_padding[of "''ab01''" "''ab''"]
    by simp
qed

subsection \<open>mergeTx\<close>

text \<open>
  The two outcomes of the walk, and the length of the array after the call.
\<close>

lemma mergeTx_append:
  "\<forall>a \<in> set txs. getHash a \<noteq> getHash tx \<Longrightarrow> mergeTx getHash merge txs tx = Inr (txs @ [tx])"
  by (induction txs) auto

lemma mergeTx_first_match:
  "i < length txs \<Longrightarrow> getHash (txs ! i) = getHash tx \<Longrightarrow>
   \<forall>j < i. getHash (txs ! j) \<noteq> getHash tx \<Longrightarrow>
   mergeTx getHash merge txs tx =
     (case merge (txs ! i) tx of Inl e \<Rightarrow> Inl e | Inr aTx' \<Rightarrow> Inr (txs[i := aTx']))"
proof (induction txs arbitrary: i)
  case Nil
  then show ?case by simp
next
  case (Cons a txs)
  show ?case
  proof (cases i)
    case 0
    then show ?thesis using Cons.prems by (simp split: sum.splits)
  next
    case (Suc k)
    have na: "getHash a \<noteq> getHash tx"
      using Cons.prems(3) Suc by (metis nth_Cons_0 zero_less_Suc)
    have k: "k < length txs" "getHash (txs ! k) = getHash tx"
      using Cons.prems(1,2) Suc by simp_all
    have "\<forall>j < k. getHash (txs ! j) \<noteq> getHash tx"
    proof (intro allI impI)
      fix j assume "j < k"
      then have "Suc j < i" using Suc by simp
      then have "getHash ((a # txs) ! Suc j) \<noteq> getHash tx" using Cons.prems(3) by blast
      then show "getHash (txs ! j) \<noteq> getHash tx" by simp
    qed
    from Cons.IH[OF k this] show ?thesis
      using na Suc by (simp split: sum.splits)
  qed
qed

lemma mergeTx_length:
  "mergeTx getHash merge txs tx = Inr r \<Longrightarrow>
   length r = (if \<exists>a \<in> set txs. getHash a = getHash tx then length txs else length txs + 1)"
  by (induction txs arbitrary: r) (auto split: if_splits sum.splits)

text \<open>
  C1. \<open>mergeTx(txs, tx)\<close> scans \<open>txs\<close> in order for the first entry whose hash equals the
  hash of \<open>tx\<close>. When no entry has that hash, \<open>tx\<close> is appended at the end. When \<open>i\<close> is
  the first index with that hash, the call is the merge of \<open>tx\<close> into entry \<open>i\<close>: the merged
  entry takes place \<open>i\<close> and every other entry keeps its place (an error thrown by the
  merge is the error of the call). Whenever the call returns, the length is unchanged if
  some entry had the hash, and one more otherwise. In particular \<open>mergeTx([], tx)\<close> yields
  the one-element array \<open>[tx]\<close>, and \<open>mergeTx([t], t2)\<close> with equal hashes merges in place,
  the length staying 1.
\<close>

theorem mergeTx_scan:
  "((\<forall>a \<in> set txs. getHash a \<noteq> getHash tx) \<longrightarrow>
       mergeTx getHash merge txs tx = Inr (txs @ [tx]))
   \<and> (\<forall>i. i < length txs \<and> getHash (txs ! i) = getHash tx
          \<and> (\<forall>j < i. getHash (txs ! j) \<noteq> getHash tx) \<longrightarrow>
        mergeTx getHash merge txs tx =
          (case merge (txs ! i) tx of Inl e \<Rightarrow> Inl e | Inr aTx' \<Rightarrow> Inr (txs[i := aTx'])))
   \<and> (\<forall>r. mergeTx getHash merge txs tx = Inr r \<longrightarrow>
        length r = (if \<exists>a \<in> set txs. getHash a = getHash tx then length txs else length txs + 1))
   \<and> mergeTx getHash merge [] tx = Inr [tx]
   \<and> (getHash t = getHash t2 \<longrightarrow>
        mergeTx getHash merge [t] t2 =
          (case merge t t2 of Inl e \<Rightarrow> Inl e | Inr t' \<Rightarrow> Inr [t']))"
proof (intro conjI allI impI)
  assume "\<forall>a \<in> set txs. getHash a \<noteq> getHash tx"
  then show "mergeTx getHash merge txs tx = Inr (txs @ [tx])" by (rule mergeTx_append)
next
  fix i
  assume "i < length txs \<and> getHash (txs ! i) = getHash tx
          \<and> (\<forall>j < i. getHash (txs ! j) \<noteq> getHash tx)"
  then show "mergeTx getHash merge txs tx =
          (case merge (txs ! i) tx of Inl e \<Rightarrow> Inl e | Inr aTx' \<Rightarrow> Inr (txs[i := aTx']))"
    using mergeTx_first_match[of i txs getHash tx merge] by blast
next
  fix r assume "mergeTx getHash merge txs tx = Inr r"
  then show "length r = (if \<exists>a \<in> set txs. getHash a = getHash tx then length txs else length txs + 1)"
    by (rule mergeTx_length)
next
  show "mergeTx getHash merge [] tx = Inr [tx]" by simp
next
  assume "getHash t = getHash t2"
  then show "mergeTx getHash merge [t] t2 =
          (case merge t t2 of Inl e \<Rightarrow> Inl e | Inr t' \<Rightarrow> Inr [t'])"
    by simp
qed

text \<open>
  The theorem at transactions that are pairs of a hash and a list, merged by appending
  the lists: a second entry with the hash of \<open>tx\<close> is left alone, an unknown hash is
  appended, and a merge that throws makes the call throw.
\<close>

theorem mergeTx_scan_witness:
  "mergeTx fst (\<lambda>a b. Inr (fst a, snd a @ snd b) :: string + string \<times> nat list)
       [(''a'', [1]), (''b'', [2]), (''b'', [3])] (''b'', [4])
     = Inr [(''a'', [1]), (''b'', [2, 4]), (''b'', [3])]
   \<and> mergeTx fst (\<lambda>a b. Inr (fst a, snd a @ snd b) :: string + string \<times> nat list)
       [(''a'', [1]), (''b'', [2])] (''c'', [4])
     = Inr [(''a'', [1]), (''b'', [2]), (''c'', [4])]
   \<and> mergeTx fst (\<lambda>a b. Inl ''MergeConflict'' :: string + string \<times> nat list)
       [(''a'', [1])] (''a'', [4])
     = Inl ''MergeConflict''"
  using
    mergeTx_scan[of "[(''a'', [1::nat]), (''b'', [2]), (''b'', [3])]" fst "(''b'', [4])"
      "\<lambda>a b. Inr (fst a, snd a @ snd b)" "(''a'', [1::nat])" "(''a'', [4])"]
    mergeTx_scan[of "[(''a'', [1::nat]), (''b'', [2])]" fst "(''c'', [4])"
      "\<lambda>a b. Inr (fst a, snd a @ snd b)" "(''a'', [1::nat])" "(''a'', [4])"]
    mergeTx_scan[of "[]" fst "(''a'', [4::nat])"
      "\<lambda>a b. Inl ''MergeConflict''" "(''a'', [1::nat])" "(''a'', [4])"]
  by simp

subsection \<open>validateAddress, isValidAddress\<close>

text \<open>When \<open>validateAddress\<close> returns.\<close>

lemma validateAddress_Inr_iff:
  "(\<exists>u. validateAddress M address networkType = Inr u) \<longleftrightarrow>
     address \<noteq> [] \<and> isBase58 M address
     \<and> (\<exists>u. MoneroNetworkType_validate M networkType = Inr u)
     \<and> (\<exists>wasm. getWasmModule M = Some wasm
           \<and> (validate_address wasm address networkType = None
               \<or> validate_address wasm address networkType = Some []))"
  by (auto simp: validateAddress_def throw_MoneroError_call_def
      split: sum.splits option.splits if_splits)

text \<open>
  C10. For every address and any two network types, \<open>isValidAddress\<close> returns the same
  boolean: the network type is not forwarded. The result is true exactly when
  \<open>validateAddress\<close>, called with the address alone (its network type undefined), does
  not throw; that is, when the address is a non-empty base-58 string, the network type
  check accepts \<open>undefined\<close>, the module is loaded and its address check reports no error.
\<close>

theorem isValidAddress_ignores_networkType:
  "isValidAddress M address nt1 = isValidAddress M address nt2
   \<and> (isValidAddress M address nt1 \<longleftrightarrow> (\<exists>u. validateAddress M address None = Inr u))
   \<and> (isValidAddress M address nt1 \<longleftrightarrow>
        address \<noteq> [] \<and> isBase58 M address
        \<and> (\<exists>u. MoneroNetworkType_validate M None = Inr u)
        \<and> (\<exists>wasm. getWasmModule M = Some wasm
              \<and> (validate_address wasm address None = None
                  \<or> validate_address wasm address None = Some [])))"
proof (intro conjI)
  show "isValidAddress M address nt1 = isValidAddress M address nt2"
    by (simp add: isValidAddress_def)
  show v: "isValidAddress M address nt1 \<longleftrightarrow> (\<exists>u. validateAddress M address None = Inr u)"
    by (simp add: isValidAddress_def split: sum.splits)
  show "isValidAddress M address nt1 \<longleftrightarrow>
        address \<noteq> [] \<and> isBase58 M address
        \<and> (\<exists>u. MoneroNetworkType_validate M None = Inr u)
        \<and> (\<exists>wasm. getWasmModule M = Some wasm
              \<and> (validate_address wasm address None = None
                  \<or> validate_address wasm address None = Some []))"
    unfolding v by (rule validateAddress_Inr_iff)
qed

text \<open>
  The theorem at the example modules. With a network type check that rejects \<open>undefined\<close>,
  an address that \<open>validateAddress\<close> accepts for network type 0 is not valid for
  \<open>isValidAddress\<close>, whatever network type is passed; with a check that accepts
  \<open>undefined\<close> it is valid when the module is loaded and not valid when it is not.
\<close>

lemma example_isBase58: "isBase58 (example_modules v w) ''4AdUndX''"
  by (simp add: example_modules_def)

theorem isValidAddress_ignores_networkType_witness:
  "isValidAddress (example_modules validate_strict (Some example_wasm)) ''4AdUndX'' (Some 0)
     = isValidAddress (example_modules validate_strict (Some example_wasm)) ''4AdUndX'' (Some 7)
   \<and> \<not> isValidAddress (example_modules validate_strict (Some example_wasm)) ''4AdUndX'' (Some 0)
   \<and> validateAddress (example_modules validate_strict (Some example_wasm)) ''4AdUndX'' (Some 0) = Inr ()
   \<and> isValidAddress (example_modules validate_lenient (Some example_wasm)) ''4AdUndX'' (Some 7)
   \<and> \<not> isValidAddress (example_modules validate_lenient None) ''4AdUndX'' (Some 0)"
proof -
  have s: "MoneroNetworkType_validate (example_modules validate_strict (Some example_wasm)) None
      = Inl (AssertionError ''Network type is invalid'')"
    by (simp add: example_modules_def validate_strict_def)
  have l: "MoneroNetworkType_validate (example_modules validate_lenient (Some example_wasm)) None = Inr ()"
    "getWasmModule (example_modules validate_lenient (Some example_wasm)) = Some example_wasm"
    "validate_address example_wasm ''4AdUndX'' None = None"
    "getWasmModule (example_modules validate_lenient None) = None"
    by (simp_all add: example_modules_def validate_lenient_def example_wasm_def)
  have v: "validateAddress (example_modules validate_strict (Some example_wasm)) ''4AdUndX'' (Some 0) = Inr ()"
    by (simp add: validateAddress_def example_isBase58)
      (simp add: example_modules_def validate_strict_def example_wasm_def)
  have c1: "isValidAddress (example_modules validate_strict (Some example_wasm)) ''4AdUndX'' (Some 0)
     = isValidAddress (example_modules validate_strict (Some example_wasm)) ''4AdUndX'' (Some 7)"
    using isValidAddress_ignores_networkType[of "example_modules validate_strict (Some example_wasm)"
        "''4AdUndX''" "Some 0" "Some 7"]
    by blast
  have c2: "\<not> isValidAddress (example_modules validate_strict (Some example_wasm)) ''4AdUndX'' (Some 0)"
    using isValidAddress_ignores_networkType[of "example_modules validate_strict (Some example_wasm)"
        "''4AdUndX''" "Some 0" "Some 0", THEN conjunct2, THEN conjunct2] s
    by simp
  have c3: "isValidAddress (example_modules validate_lenient (Some example_wasm)) ''4AdUndX'' (Some 7)"
    using isValidAddress_ignores_networkType[of "example_modules validate_lenient (Some example_wasm)"
        "''4AdUndX''" "Some 7" "Some 7", THEN conjunct2, THEN conjunct2] l example_isBase58
    by simp
  have c4: "\<not> isValidAddress (example_modules validate_lenient None) ''4AdUndX'' (Some 0)"
    using isValidAddress_ignores_networkType[of "example_modules validate_lenient None"
        "''4AdUndX''" "Some 0" "Some 0", THEN conjunct2, THEN conjunct2] l
    by simp
  show ?thesis
    using c1 c2 v c3 c4 by blast
qed

subsection \<open>The module that is not loaded\<close>

text \<open>
  C8, where the code departs from it. Before the module is loaded, \<open>jsonToBinary\<close>,
  \<open>binaryToJson\<close> and \<open>binaryBlocksToJson\<close> on every input, and \<open>validateAddress\<close> on every
  non-empty base-58 address whose network type passes \<open>MoneroNetworkType.validate\<close>, do
  fail with an error that reaches the caller, but the error is the \<open>TypeError\<close> of a class
  called without \<open>new\<close>: the error "WASM module is not loaded" that the guard means to
  throw is never thrown.
\<close>

theorem provider_not_loaded_TypeError:
  assumes "getWasmModule M = None"
  shows "jsonToBinary M json = Inl (TypeError CLASS_WITHOUT_NEW)
    \<and> binaryToJson M uint8arr = Inl (TypeError CLASS_WITHOUT_NEW)
    \<and> binaryBlocksToJson M uint8arr = Inl (TypeError CLASS_WITHOUT_NEW)
    \<and> (address \<noteq> [] \<and> isBase58 M address \<and> MoneroNetworkType_validate M networkType = Inr ()
          \<longrightarrow> validateAddress M address networkType = Inl (TypeError CLASS_WITHOUT_NEW)
            \<and> validateAddress M address networkType \<noteq> Inl (MoneroError WASM_NOT_LOADED))
    \<and> jsonToBinary M json \<noteq> Inl (MoneroError WASM_NOT_LOADED)
    \<and> binaryToJson M uint8arr \<noteq> Inl (MoneroError WASM_NOT_LOADED)
    \<and> binaryBlocksToJson M uint8arr \<noteq> Inl (MoneroError WASM_NOT_LOADED)"
proof -
  have j: "jsonToBinary M json = Inl (TypeError CLASS_WITHOUT_NEW)"
    using assms by (simp add: jsonToBinary_def throw_MoneroError_call_def)
  have b: "binaryToJson M uint8arr = Inl (TypeError CLASS_WITHOUT_NEW)"
    using assms by (simp add: binaryToJson_def throw_MoneroError_call_def)
  have bb: "binaryBlocksToJson M uint8arr = Inl (TypeError CLASS_WITHOUT_NEW)"
    using assms by (simp add: binaryBlocksToJson_def throw_MoneroError_call_def)
  have v: "address \<noteq> [] \<and> isBase58 M address \<and> MoneroNetworkType_validate M networkType = Inr ()
          \<longrightarrow> validateAddress M address networkType = Inl (TypeError CLASS_WITHOUT_NEW)
            \<and> validateAddress M address networkType \<noteq> Inl (MoneroError WASM_NOT_LOADED)"
    using assms by (simp add: validateAddress_def throw_MoneroError_call_def)
  show ?thesis using j b bb v by simp
qed

text \<open>
  The theorem at the calls that fail: with no module loaded, \<open>jsonToBinary({})\<close>,
  \<open>binaryToJson\<close> and \<open>binaryBlocksToJson\<close> of two bytes, and \<open>validateAddress\<close> of an
  accepted address throw the \<open>TypeError\<close>, not the error of the guard.
\<close>

theorem provider_not_loaded_TypeError_witness:
  "getWasmModule (example_modules validate_strict None) = None
   \<and> jsonToBinary (example_modules validate_strict None) (JsonObject [])
       = Inl (TypeError CLASS_WITHOUT_NEW)
   \<and> jsonToBinary (example_modules validate_strict None) (JsonObject [])
       \<noteq> Inl (MoneroError WASM_NOT_LOADED)
   \<and> binaryToJson (example_modules validate_strict None) [1, 2] = Inl (TypeError CLASS_WITHOUT_NEW)
   \<and> binaryBlocksToJson (example_modules validate_strict None) [1, 2]
       = Inl (TypeError CLASS_WITHOUT_NEW)
   \<and> validateAddress (example_modules validate_strict None) ''4AdUndX'' (Some 1)
       = Inl (TypeError CLASS_WITHOUT_NEW)"
proof -
  let ?M = "example_modules validate_strict None"
  have m: "getWasmModule ?M = None" by (simp add: example_modules_def)
  have a: "''4AdUndX'' \<noteq> [] \<and> isBase58 ?M ''4AdUndX''
      \<and> MoneroNetworkType_validate ?M (Some 1) = Inr ()"
    by (simp add: example_modules_def validate_strict_def)
  note t = provider_not_loaded_TypeError[OF m, of "JsonObject []" "[1, 2]" "''4AdUndX''" "Some 1"]
  have "validateAddress ?M ''4AdUndX'' (Some 1) = Inl (TypeError CLASS_WITHOUT_NEW)"
    using t a by blast
  then show ?thesis using m t by blast
qed

text \<open>
  \<open>validateAddress\<close> checks its arguments before it looks at the module: with no module
  loaded the empty address fails with the assertion error "Address is empty".
\<close>

lemma validateAddress_empty_address:
  "getWasmModule (example_modules validate_strict None) = None
   \<and> validateAddress (example_modules validate_strict None) '''' (Some 1)
       = Inl (AssertionError ''Address is empty'')"
  by (simp add: validateAddress_def example_modules_def)

subsection \<open>binaryBlocksToJson\<close>

text \<open>
  Mapping with a callback that can throw: the result, when there is one, is entry by
  entry; there is one when the callback returns on every entry; an error is the error of
  an entry. Replacing the first occurrence of a character.
\<close>

lemma map_throw_Inr_iff:
  "map_throw f xs = Inr ys \<longleftrightarrow>
     length ys = length xs \<and> (\<forall>i < length xs. f (xs ! i) = Inr (ys ! i))"
proof (induction xs arbitrary: ys)
  case Nil
  then show ?case by auto
next
  case (Cons x xs)
  show ?case
  proof (cases ys)
    case Nil
    then show ?thesis by (auto split: sum.splits)
  next
    case (Cons y ys')
    have "(\<forall>i < Suc (length xs). f ((x # xs) ! i) = Inr ((y # ys') ! i)) \<longleftrightarrow>
        f x = Inr y \<and> (\<forall>i < length xs. f (xs ! i) = Inr (ys' ! i))"
      by (auto simp: less_Suc_eq_0_disj)
    then show ?thesis
      using Cons Cons.IH[of ys'] by (auto split: sum.splits)
  qed
qed

lemma map_throw_succeeds:
  "\<forall>x \<in> set xs. \<exists>y. f x = Inr y \<Longrightarrow> \<exists>ys. map_throw f xs = Inr ys"
proof (induction xs)
  case Nil
  then show ?case by simp
next
  case (Cons x xs)
  then obtain y ys where "f x = Inr y" "map_throw f xs = Inr ys" by auto
  then show ?case by simp
qed

lemma map_throw_Inl:
  "map_throw f xs = Inl e \<Longrightarrow> \<exists>x \<in> set xs. f x = Inl e"
  by (induction xs) (auto split: sum.splits)

lemma String_replace_first:
  "pattern \<notin> set p \<Longrightarrow> String_replace (p @ pattern # s) pattern replacement = p @ replacement @ s"
  by (induction p) auto

lemma String_replace_absent:
  "pattern \<notin> set s \<Longrightarrow> String_replace s pattern replacement = s"
  by (induction s) auto

text \<open>
  Assigning a property leaves the other properties as they are. An entry of \<open>json.txs\<close>
  that is falsy gives the empty array, and an array of strings gives the parses of the
  repaired strings.
\<close>

lemma map_of_set_property:
  "map_of (set_property properties name v) name' =
     (if name' = name then Some v else map_of properties name')"
  by (induction properties name v rule: set_property.induct) auto

lemma parse_txs_falsy: "\<not> json_truthy txs \<Longrightarrow> parse_txs M txs = Inr (JsonArray [])"
  by (simp add: parse_txs_def)

lemma parse_txs_strings:
  "parse_txs M (JsonArray (map JsonString txs)) = Inr (JsonArray parsed) \<longleftrightarrow>
     length parsed = length txs
     \<and> (\<forall>k < length txs.
          JSON_parse M (String_replace (txs ! k) (CHR '','') ''{'' @ ''}'') = Inr (parsed ! k))"
proof -
  have "parse_txs M (JsonArray (map JsonString txs)) = Inr (JsonArray parsed) \<longleftrightarrow>
      map_throw (parse_tx M) (map JsonString txs) = Inr parsed"
    by (simp add: parse_txs_def entries_for_map_def split: sum.splits)
  then show ?thesis
    by (simp add: map_throw_Inr_iff parse_tx_def)
qed

text \<open>
  On a reply in which \<open>blocks\<close> and \<open>txs\<close> are arrays the call returns exactly when every
  entry parses, with the two properties replaced by the arrays of the parsed entries and
  every other property kept.
\<close>

lemma binaryBlocksToJson_arrays:
  assumes "getWasmModule M = Some wasm"
    and "binary_blocks_to_json wasm uint8arr = Inr json_str"
    and "JSON_parse M json_str = Inr (JsonObject properties)"
    and "map_of properties ''blocks'' = Some (JsonArray blockStrs)"
    and "map_of properties ''txs'' = Some (JsonArray txLists)"
  shows "binaryBlocksToJson M uint8arr = Inr r \<longleftrightarrow>
     (\<exists>parsedBlocks parsedTxs.
        map_throw (JSON_parse_value M) blockStrs = Inr parsedBlocks
        \<and> map_throw (parse_txs M) txLists = Inr parsedTxs
        \<and> r = JsonObject
              (set_property (set_property properties ''blocks'' (JsonArray parsedBlocks))
                 ''txs'' (JsonArray parsedTxs)))"
proof -
  have t: "\<And>v. map_of (set_property properties ''blocks'' v) ''txs'' = Some (JsonArray txLists)"
    using assms(5) by (simp add: map_of_set_property)
  have "binaryBlocksToJson M uint8arr = parse_blocks_and_txs M (JsonObject properties)"
    using assms(1-3) by (simp add: binaryBlocksToJson_def)
  also have "\<dots> =
     (case map_throw (JSON_parse_value M) blockStrs of
        Inl e \<Rightarrow> Inl e
      | Inr parsedBlocks \<Rightarrow>
         (case map_throw (parse_txs M) txLists of
            Inl e \<Rightarrow> Inl e
          | Inr parsedTxs \<Rightarrow>
             Inr (JsonObject
                   (set_property (set_property properties ''blocks'' (JsonArray parsedBlocks))
                      ''txs'' (JsonArray parsedTxs)))))"
    using assms(4) t
    by (simp add: parse_blocks_and_txs_def get_property_def entries_for_map_def
        assign_property_def Let_def split: sum.splits)
  finally show ?thesis
    by (auto split: sum.splits)
qed

text \<open>
  The example reply for two blocks: the block strings are parsed as they are, the
  transaction strings \<open>,v:2,f:7\<close> and \<open>,v:1\<close> after the repair, and the block with no
  transaction list gets the empty array.
\<close>

lemma binaryBlocksToJson_example_reply:
  "binaryBlocksToJson (example_modules validate_strict (Some example_wasm)) [1, 2]
     = Inr (JsonObject
         [(''blocks'', JsonArray [JsonObject [(''text'', JsonString ''{h:1}'')],
                                  JsonObject [(''text'', JsonString ''{h:2}'')]]),
          (''txs'', JsonArray [JsonArray [JsonObject [(''text'', JsonString ''{v:2,f:7}'')],
                                          JsonObject [(''text'', JsonString ''{v:1}'')]],
                               JsonArray []]),
          (''status'', JsonString ''OK'')])"
  by (simp add: binaryBlocksToJson_def parse_blocks_and_txs_def get_property_def
      entries_for_map_def assign_property_def JSON_parse_value_def parse_txs_def parse_tx_def
      example_modules_def example_wasm_def example_JSON_parse_def example_reply_def)

text \<open>
  C9, where the code departs from it. The two calls of \<open>map\<close> on the reply are not
  guarded. When \<open>blocks\<close> of the parsed reply is a string, as in the reply of the module
  for a request that yields no blocks, where it is the empty string,
  \<open>binaryBlocksToJson\<close> produces no records: it throws the \<open>TypeError\<close> of \<open>json.blocks.map\<close>.
\<close>

theorem binaryBlocksToJson_blocks_not_array:
  assumes "getWasmModule M = Some wasm"
    and "binary_blocks_to_json wasm uint8arr = Inr json_str"
    and "JSON_parse M json_str = Inr (JsonObject properties)"
    and "map_of properties ''blocks'' = Some (JsonString s)"
  shows "binaryBlocksToJson M uint8arr = Inl (TypeError ''json.blocks.map is not a function'')"
  using assms
  by (simp add: binaryBlocksToJson_def parse_blocks_and_txs_def get_property_def
      entries_for_map_def)

text \<open>
  The theorem at the example module's reply for no blocks, \<open>blocks\<close> and \<open>txs\<close> the empty
  string.
\<close>

theorem binaryBlocksToJson_blocks_not_array_witness:
  "getWasmModule (example_modules validate_strict (Some example_wasm)) = Some example_wasm
   \<and> binary_blocks_to_json example_wasm [] = Inr ''empty reply''
   \<and> JSON_parse (example_modules validate_strict (Some example_wasm)) ''empty reply''
       = Inr (JsonObject [(''blocks'', JsonString ''''), (''txs'', JsonString ''''),
                          (''status'', JsonString ''OK'')])
   \<and> binaryBlocksToJson (example_modules validate_strict (Some example_wasm)) []
       = Inl (TypeError ''json.blocks.map is not a function'')"
proof -
  let ?M = "example_modules validate_strict (Some example_wasm)"
  have a: "getWasmModule ?M = Some example_wasm"
    "binary_blocks_to_json example_wasm [] = Inr ''empty reply''"
    "JSON_parse ?M ''empty reply''
       = Inr (JsonObject [(''blocks'', JsonString ''''), (''txs'', JsonString ''''),
                          (''status'', JsonString ''OK'')])"
    by (simp_all add: example_modules_def example_wasm_def example_JSON_parse_def
        example_empty_reply_def)
  have b: "map_of [(''blocks'', JsonString ''''), (''txs'', JsonString ''''),
      (''status'', JsonString ''OK'')] ''blocks'' = Some (JsonString '''')"
    by simp
  show ?thesis
    using a binaryBlocksToJson_blocks_not_array[OF a(1) a(2) a(3) b] by blast
qed

section \<open>Properties of MoneroTxFilter\<close>

subsection \<open>The parts of meetsCriteria as conjunctions of clauses\<close>

text \<open>
  Each part of \<open>meetsCriteria\<close> returns false at the first clause that fails, so it is the
  conjunction of its clauses; a clause that is not set holds.
\<close>

lemma if_False_else: "(if c then False else x) \<longleftrightarrow> \<not> c \<and> x"
  by simp

lemma not_set_and_differs: "\<not> (a \<noteq> None \<and> a \<noteq> b) \<longleftrightarrow> (a = None \<or> b = a)"
  by auto

lemma filterOnTx_iff:
  "filterOnTx t tx \<longleftrightarrow>
     (getId t = None \<or> getId tx = getId t)
   \<and> (getPaymentId t = None \<or> getPaymentId tx = getPaymentId t)
   \<and> (getIsConfirmed t = None \<or> getIsConfirmed tx = getIsConfirmed t)
   \<and> (getInTxPool t = None \<or> getInTxPool tx = getInTxPool t)
   \<and> (getDoNotRelay t = None \<or> getDoNotRelay tx = getDoNotRelay t)
   \<and> (getIsRelayed t = None \<or> getIsRelayed tx = getIsRelayed t)
   \<and> (getIsFailed t = None \<or> getIsFailed tx = getIsFailed t)
   \<and> (getIsCoinbase t = None \<or> getIsCoinbase tx = getIsCoinbase t)"
  unfolding filterOnTx_def if_False_else not_set_and_differs by (simp only: simp_thms)

lemma incomingTransfers_loop_iff:
  "incomingTransfers_loop meets incomingTransfers \<longleftrightarrow> (\<exists>transfer \<in> set incomingTransfers. meets transfer)"
  by (induction incomingTransfers) auto

lemma matchFound_iff:
  "matchFound meets tf tx \<longleftrightarrow>
     (\<exists>transfer.
        (getOutgoingTransfer tx = Some transfer
         \<or> (\<exists>incomingTransfers. getIncomingTransfers tx = Some incomingTransfers
               \<and> transfer \<in> set incomingTransfers))
      \<and> meets tf transfer)"
  by (auto simp: matchFound_def incomingTransfers_loop_iff split: option.splits)

lemma filterOnRest_iff:
  "filterOnRest this tx \<longleftrightarrow>
     (\<forall>b. getHasPaymentId this = Some b \<longrightarrow> b = (getPaymentId tx \<noteq> None))
   \<and> (\<forall>b. getHasOutgoingTransfer this = Some b \<longrightarrow> b = (getOutgoingTransfer tx \<noteq> None))
   \<and> (\<forall>b. getHasIncomingTransfers this = Some b \<longrightarrow>
         b = (getIncomingTransfers tx \<noteq> None \<and> getIncomingTransfers tx \<noteq> Some []))
   \<and> (\<forall>ids. getTxIds this = Some ids \<longrightarrow> Array_includes ids (getId tx))
   \<and> (\<forall>ids. getPaymentIds this = Some ids \<longrightarrow> Array_includes ids (getPaymentId tx))
   \<and> (\<forall>h. getHeight this = Some h \<longrightarrow> height_of tx = Some h)
   \<and> (\<forall>m. getMinHeight this = Some m \<longrightarrow> (\<exists>h. height_of tx = Some h \<and> m \<le> h))
   \<and> (\<forall>m. getMaxHeight this = Some m \<longrightarrow> (\<exists>h. height_of tx = Some h \<and> h \<le> m))"
proof -
  have 1: "(\<not> (getHasPaymentId this \<noteq> None \<and> getHasPaymentId this = Some True \<and> getPaymentId tx = None)
        \<and> \<not> (getHasPaymentId this \<noteq> None \<and> getHasPaymentId this \<noteq> Some True \<and> getPaymentId tx \<noteq> None))
      \<longleftrightarrow> (\<forall>b. getHasPaymentId this = Some b \<longrightarrow> b = (getPaymentId tx \<noteq> None))"
    by (cases "getHasPaymentId this") auto
  have 2: "(\<not> (getHasOutgoingTransfer this \<noteq> None \<and> getHasOutgoingTransfer this = Some True
          \<and> getOutgoingTransfer tx = None)
        \<and> \<not> (getHasOutgoingTransfer this \<noteq> None \<and> getHasOutgoingTransfer this \<noteq> Some True
          \<and> getOutgoingTransfer tx \<noteq> None))
      \<longleftrightarrow> (\<forall>b. getHasOutgoingTransfer this = Some b \<longrightarrow> b = (getOutgoingTransfer tx \<noteq> None))"
    by (cases "getHasOutgoingTransfer this") auto
  have 3: "(\<not> (getHasIncomingTransfers this \<noteq> None \<and> getHasIncomingTransfers this = Some True
          \<and> (getIncomingTransfers tx = None \<or> getIncomingTransfers tx = Some []))
        \<and> \<not> (getHasIncomingTransfers this \<noteq> None \<and> getHasIncomingTransfers this \<noteq> Some True
          \<and> getIncomingTransfers tx \<noteq> None \<and> getIncomingTransfers tx \<noteq> Some []))
      \<longleftrightarrow> (\<forall>b. getHasIncomingTransfers this = Some b \<longrightarrow>
         b = (getIncomingTransfers tx \<noteq> None \<and> getIncomingTransfers tx \<noteq> Some []))"
    by (cases "getHasIncomingTransfers this") auto
  have 4: "\<not> (case getTxIds this of None \<Rightarrow> False | Some ids \<Rightarrow> \<not> Array_includes ids (getId tx))
      \<longleftrightarrow> (\<forall>ids. getTxIds this = Some ids \<longrightarrow> Array_includes ids (getId tx))"
    by (cases "getTxIds this") auto
  have 5: "\<not> (case getPaymentIds this of None \<Rightarrow> False | Some ids \<Rightarrow> \<not> Array_includes ids (getPaymentId tx))
      \<longleftrightarrow> (\<forall>ids. getPaymentIds this = Some ids \<longrightarrow> Array_includes ids (getPaymentId tx))"
    by (cases "getPaymentIds this") auto
  have 6: "\<not> (getHeight this \<noteq> None \<and> height_of tx \<noteq> getHeight this)
      \<longleftrightarrow> (\<forall>h. getHeight this = Some h \<longrightarrow> height_of tx = Some h)"
    by (cases "getHeight this") auto
  have 7: "\<not> (case getMinHeight this of None \<Rightarrow> False
               | Some m \<Rightarrow> (case height_of tx of None \<Rightarrow> True | Some h \<Rightarrow> h < m))
      \<longleftrightarrow> (\<forall>m. getMinHeight this = Some m \<longrightarrow> (\<exists>h. height_of tx = Some h \<and> m \<le> h))"
    by (cases "getMinHeight this"; cases "height_of tx") auto
  have 8: "\<not> (case getMaxHeight this of None \<Rightarrow> False
               | Some m \<Rightarrow> (case height_of tx of None \<Rightarrow> True | Some h \<Rightarrow> h > m))
      \<longleftrightarrow> (\<forall>m. getMaxHeight this = Some m \<longrightarrow> (\<exists>h. height_of tx = Some h \<and> h \<le> m))"
    by (cases "getMaxHeight this"; cases "height_of tx") auto
  have "filterOnRest this tx \<longleftrightarrow>
      (\<not> (getHasPaymentId this \<noteq> None \<and> getHasPaymentId this = Some True \<and> getPaymentId tx = None)
        \<and> \<not> (getHasPaymentId this \<noteq> None \<and> getHasPaymentId this \<noteq> Some True \<and> getPaymentId tx \<noteq> None))
    \<and> (\<not> (getHasOutgoingTransfer this \<noteq> None \<and> getHasOutgoingTransfer this = Some True
          \<and> getOutgoingTransfer tx = None)
        \<and> \<not> (getHasOutgoingTransfer this \<noteq> None \<and> getHasOutgoingTransfer this \<noteq> Some True
          \<and> getOutgoingTransfer tx \<noteq> None))
    \<and> (\<not> (getHasIncomingTransfers this \<noteq> None \<and> getHasIncomingTransfers this = Some True
          \<and> (getIncomingTransfers tx = None \<or> getIncomingTransfers tx = Some []))
        \<and> \<not> (getHasIncomingTransfers this \<noteq> None \<and> getHasIncomingTransfers this \<noteq> Some True
          \<and> getIncomingTransfers tx \<noteq> None \<and> getIncomingTransfers tx \<noteq> Some []))
    \<and> \<not> (case getTxIds this of None \<Rightarrow> False | Some ids \<Rightarrow> \<not> Array_includes ids (getId tx))
    \<and> \<not> (case getPaymentIds this of None \<Rightarrow> False | Some ids \<Rightarrow> \<not> Array_includes ids (getPaymentId tx))
    \<and> \<not> (getHeight this \<noteq> None \<and> height_of tx \<noteq> getHeight this)
    \<and> \<not> (case getMinHeight this of None \<Rightarrow> False
               | Some m \<Rightarrow> (case height_of tx of None \<Rightarrow> True | Some h \<Rightarrow> h < m))
    \<and> \<not> (case getMaxHeight this of None \<Rightarrow> False
               | Some m \<Rightarrow> (case height_of tx of None \<Rightarrow> True | Some h \<Rightarrow> h > m))"
    unfolding filterOnRest_def by (simp only: if_False_else simp_thms conj_assoc)
  then show ?thesis
    unfolding 1 2 3 4 5 6 7 8 .
qed

lemma meetsCriteria_iff:
  "meetsCriteria meets this candidate \<longleftrightarrow>
     (\<forall>t. getTx this = Some t \<longrightarrow> filterOnTx t candidate)
   \<and> (\<forall>tf. getTransferFilter this = Some tf \<longrightarrow> matchFound meets tf candidate)
   \<and> filterOnRest this candidate"
  by (cases "getTx this"; cases "getTransferFilter this") (simp_all add: meetsCriteria_def)

text \<open>The definitions to unfold when evaluating the filter at the examples.\<close>

lemmas example_defs =
  tx_unknown_def state_of_def block_at_def at_least_def template_abc_def candidate_abc_def

lemmas meetsCriteria_unfold =
  meetsCriteria_def filterOnTx_def matchFound_def filterOnRest_def height_of_def Array_includes_def


subsection \<open>The template transaction\<close>

text \<open>
  C3, as amended. For a filter with a template transaction, \<open>meetsCriteria\<close> accepts the
  candidate only if, for each of the eight fields id, paymentId, isConfirmed, inTxPool,
  doNotRelay, isRelayed, isFailed and isCoinbase that is set on the template, the
  candidate's field is defined and equal to the template's. Acceptance is the template
  clause together with acceptance by the same filter without the template; the template
  clause holds exactly when each of the eight fields is unset on the template or equal on
  the candidate, so unset fields impose no constraint; and the template's outgoing
  transfer, incoming transfers and block are not compared at all.
\<close>

theorem meetsCriteria_template:
  assumes "getTx this = Some t"
  shows
    "(meetsCriteria meets this candidate \<longrightarrow>
        (getId t \<noteq> None \<longrightarrow> getId candidate \<noteq> None \<and> getId candidate = getId t)
      \<and> (getPaymentId t \<noteq> None \<longrightarrow>
            getPaymentId candidate \<noteq> None \<and> getPaymentId candidate = getPaymentId t)
      \<and> (getIsConfirmed t \<noteq> None \<longrightarrow>
            getIsConfirmed candidate \<noteq> None \<and> getIsConfirmed candidate = getIsConfirmed t)
      \<and> (getInTxPool t \<noteq> None \<longrightarrow>
            getInTxPool candidate \<noteq> None \<and> getInTxPool candidate = getInTxPool t)
      \<and> (getDoNotRelay t \<noteq> None \<longrightarrow>
            getDoNotRelay candidate \<noteq> None \<and> getDoNotRelay candidate = getDoNotRelay t)
      \<and> (getIsRelayed t \<noteq> None \<longrightarrow>
            getIsRelayed candidate \<noteq> None \<and> getIsRelayed candidate = getIsRelayed t)
      \<and> (getIsFailed t \<noteq> None \<longrightarrow>
            getIsFailed candidate \<noteq> None \<and> getIsFailed candidate = getIsFailed t)
      \<and> (getIsCoinbase t \<noteq> None \<longrightarrow>
            getIsCoinbase candidate \<noteq> None \<and> getIsCoinbase candidate = getIsCoinbase t))
   \<and> (meetsCriteria meets this candidate \<longleftrightarrow>
        filterOnTx t candidate \<and> meetsCriteria meets (this\<lparr>getTx := None\<rparr>) candidate)
   \<and> (filterOnTx t candidate \<longleftrightarrow>
        (getId t = None \<or> getId candidate = getId t)
      \<and> (getPaymentId t = None \<or> getPaymentId candidate = getPaymentId t)
      \<and> (getIsConfirmed t = None \<or> getIsConfirmed candidate = getIsConfirmed t)
      \<and> (getInTxPool t = None \<or> getInTxPool candidate = getInTxPool t)
      \<and> (getDoNotRelay t = None \<or> getDoNotRelay candidate = getDoNotRelay t)
      \<and> (getIsRelayed t = None \<or> getIsRelayed candidate = getIsRelayed t)
      \<and> (getIsFailed t = None \<or> getIsFailed candidate = getIsFailed t)
      \<and> (getIsCoinbase t = None \<or> getIsCoinbase candidate = getIsCoinbase t))
   \<and> filterOnTx (t\<lparr>getOutgoingTransfer := out, getIncomingTransfers := ins, getBlock := blk\<rparr>)
        candidate = filterOnTx t candidate"
proof (intro conjI)
  have split: "meetsCriteria meets this candidate \<longleftrightarrow>
        filterOnTx t candidate \<and> meetsCriteria meets (this\<lparr>getTx := None\<rparr>) candidate"
    using assms by (simp add: meetsCriteria_iff filterOnRest_iff)
  then show "meetsCriteria meets this candidate \<longleftrightarrow>
        filterOnTx t candidate \<and> meetsCriteria meets (this\<lparr>getTx := None\<rparr>) candidate" .
  show "filterOnTx t candidate \<longleftrightarrow>
        (getId t = None \<or> getId candidate = getId t)
      \<and> (getPaymentId t = None \<or> getPaymentId candidate = getPaymentId t)
      \<and> (getIsConfirmed t = None \<or> getIsConfirmed candidate = getIsConfirmed t)
      \<and> (getInTxPool t = None \<or> getInTxPool candidate = getInTxPool t)
      \<and> (getDoNotRelay t = None \<or> getDoNotRelay candidate = getDoNotRelay t)
      \<and> (getIsRelayed t = None \<or> getIsRelayed candidate = getIsRelayed t)
      \<and> (getIsFailed t = None \<or> getIsFailed candidate = getIsFailed t)
      \<and> (getIsCoinbase t = None \<or> getIsCoinbase candidate = getIsCoinbase t)"
    by (rule filterOnTx_iff)
  show "filterOnTx (t\<lparr>getOutgoingTransfer := out, getIncomingTransfers := ins, getBlock := blk\<rparr>)
        candidate = filterOnTx t candidate"
    by (simp add: filterOnTx_iff)
  show "meetsCriteria meets this candidate \<longrightarrow>
        (getId t \<noteq> None \<longrightarrow> getId candidate \<noteq> None \<and> getId candidate = getId t)
      \<and> (getPaymentId t \<noteq> None \<longrightarrow>
            getPaymentId candidate \<noteq> None \<and> getPaymentId candidate = getPaymentId t)
      \<and> (getIsConfirmed t \<noteq> None \<longrightarrow>
            getIsConfirmed candidate \<noteq> None \<and> getIsConfirmed candidate = getIsConfirmed t)
      \<and> (getInTxPool t \<noteq> None \<longrightarrow>
            getInTxPool candidate \<noteq> None \<and> getInTxPool candidate = getInTxPool t)
      \<and> (getDoNotRelay t \<noteq> None \<longrightarrow>
            getDoNotRelay candidate \<noteq> None \<and> getDoNotRelay candidate = getDoNotRelay t)
      \<and> (getIsRelayed t \<noteq> None \<longrightarrow>
            getIsRelayed candidate \<noteq> None \<and> getIsRelayed candidate = getIsRelayed t)
      \<and> (getIsFailed t \<noteq> None \<longrightarrow>
            getIsFailed candidate \<noteq> None \<and> getIsFailed candidate = getIsFailed t)
      \<and> (getIsCoinbase t \<noteq> None \<longrightarrow>
            getIsCoinbase candidate \<noteq> None \<and> getIsCoinbase candidate = getIsCoinbase t)"
  proof
    assume "meetsCriteria meets this candidate"
    then have "filterOnTx t candidate" using split by simp
    then have f: "getId t = None \<or> getId candidate = getId t"
      "getPaymentId t = None \<or> getPaymentId candidate = getPaymentId t"
      "getIsConfirmed t = None \<or> getIsConfirmed candidate = getIsConfirmed t"
      "getInTxPool t = None \<or> getInTxPool candidate = getInTxPool t"
      "getDoNotRelay t = None \<or> getDoNotRelay candidate = getDoNotRelay t"
      "getIsRelayed t = None \<or> getIsRelayed candidate = getIsRelayed t"
      "getIsFailed t = None \<or> getIsFailed candidate = getIsFailed t"
      "getIsCoinbase t = None \<or> getIsCoinbase candidate = getIsCoinbase t"
      unfolding filterOnTx_iff by blast+
    show "(getId t \<noteq> None \<longrightarrow> getId candidate \<noteq> None \<and> getId candidate = getId t)
      \<and> (getPaymentId t \<noteq> None \<longrightarrow>
            getPaymentId candidate \<noteq> None \<and> getPaymentId candidate = getPaymentId t)
      \<and> (getIsConfirmed t \<noteq> None \<longrightarrow>
            getIsConfirmed candidate \<noteq> None \<and> getIsConfirmed candidate = getIsConfirmed t)
      \<and> (getInTxPool t \<noteq> None \<longrightarrow>
            getInTxPool candidate \<noteq> None \<and> getInTxPool candidate = getInTxPool t)
      \<and> (getDoNotRelay t \<noteq> None \<longrightarrow>
            getDoNotRelay candidate \<noteq> None \<and> getDoNotRelay candidate = getDoNotRelay t)
      \<and> (getIsRelayed t \<noteq> None \<longrightarrow>
            getIsRelayed candidate \<noteq> None \<and> getIsRelayed candidate = getIsRelayed t)
      \<and> (getIsFailed t \<noteq> None \<longrightarrow>
            getIsFailed candidate \<noteq> None \<and> getIsFailed candidate = getIsFailed t)
      \<and> (getIsCoinbase t \<noteq> None \<longrightarrow>
            getIsCoinbase candidate \<noteq> None \<and> getIsCoinbase candidate = getIsCoinbase t)"
      using f(1) f(2) f(3) f(4) f(5) f(6) f(7) f(8) by (intro conjI impI) simp_all
  qed
qed

text \<open>
  The theorem at a template that sets the id and the confirmation flag: a candidate with
  both, and a payment id the template leaves unset, is accepted; without the confirmation
  flag it is rejected.
\<close>

theorem meetsCriteria_template_witness:
  "getTx (state_of (Some template_abc) (None :: nat option)) = Some template_abc
   \<and> meetsCriteria at_least (state_of (Some template_abc) None) candidate_abc
   \<and> getId template_abc = Some ''abc'' \<and> getId candidate_abc = Some ''abc''
   \<and> getPaymentId template_abc = None \<and> getPaymentId candidate_abc = Some ''03284e41c342f032''
   \<and> \<not> meetsCriteria at_least (state_of (Some template_abc) None)
         (candidate_abc\<lparr>getIsConfirmed := None\<rparr>)"
proof -
  have t: "getTx (state_of (Some template_abc) (None :: nat option)) = Some template_abc"
    by (simp add: state_of_def)
  have m: "meetsCriteria at_least (state_of (Some template_abc) None) candidate_abc"
    by (simp add: meetsCriteria_unfold example_defs)
  have f: "getIsConfirmed template_abc \<noteq> None"
    "getIsConfirmed (candidate_abc\<lparr>getIsConfirmed := None\<rparr>) = None"
    "getPaymentId template_abc = None" "getPaymentId candidate_abc = Some ''03284e41c342f032''"
    "getId template_abc = Some ''abc''"
    by (simp_all add: example_defs)
  have "getId template_abc \<noteq> None \<longrightarrow>
      getId candidate_abc \<noteq> None \<and> getId candidate_abc = getId template_abc"
    using meetsCriteria_template[OF t, of at_least candidate_abc, THEN conjunct1] m by blast
  then have i: "getId candidate_abc = Some ''abc''"
    using f(5) by simp
  have "meetsCriteria at_least (state_of (Some template_abc) None)
        (candidate_abc\<lparr>getIsConfirmed := None\<rparr>) \<longrightarrow>
      (getIsConfirmed template_abc \<noteq> None \<longrightarrow>
        getIsConfirmed (candidate_abc\<lparr>getIsConfirmed := None\<rparr>) \<noteq> None
        \<and> getIsConfirmed (candidate_abc\<lparr>getIsConfirmed := None\<rparr>) = getIsConfirmed template_abc)"
    using meetsCriteria_template[OF t, of at_least "candidate_abc\<lparr>getIsConfirmed := None\<rparr>",
        THEN conjunct1]
    by blast
  then have n: "\<not> meetsCriteria at_least (state_of (Some template_abc) None)
         (candidate_abc\<lparr>getIsConfirmed := None\<rparr>)"
    using f(1,2) by blast
  show ?thesis using t m f(3,4,5) i n by blast
qed

text \<open>
  C3 as stated, for every field set on the template, fails: a template whose outgoing
  transfer, incoming transfers and block are set accepts a candidate on which all three
  are undefined.
\<close>

theorem meetsCriteria_template_counterexample:
  "getTx (state_of (Some template_transfers) (None :: nat option)) = Some template_transfers
   \<and> getOutgoingTransfer template_transfers = Some 5
   \<and> getIncomingTransfers template_transfers = Some [1]
   \<and> getBlock template_transfers = Some (block_at 100)
   \<and> meetsCriteria at_least (state_of (Some template_transfers) None) tx_unknown
   \<and> getOutgoingTransfer (tx_unknown :: nat MoneroTxWallet) = None
   \<and> getIncomingTransfers (tx_unknown :: nat MoneroTxWallet) = None
   \<and> getBlock (tx_unknown :: nat MoneroTxWallet) = None"
  by (simp add: meetsCriteria_unfold example_defs template_transfers_def)

subsection \<open>The nested transfer filter\<close>

text \<open>
  C5. For a filter with a nested transfer filter, the nested-transfer clause (the value
  of \<open>matchFound\<close>) is true exactly when the candidate's outgoing transfer or one of its
  incoming transfers meets the nested filter; \<open>meetsCriteria\<close> is that clause together
  with acceptance by the same filter without the nested filter; and a candidate with no
  outgoing transfer and no incoming transfers fails the clause, so \<open>meetsCriteria\<close>
  returns false.
\<close>

theorem meetsCriteria_transferFilter:
  assumes "getTransferFilter this = Some tf"
  shows
    "(matchFound meets tf candidate \<longleftrightarrow>
        (\<exists>transfer.
           (getOutgoingTransfer candidate = Some transfer
            \<or> (\<exists>incomingTransfers. getIncomingTransfers candidate = Some incomingTransfers
                  \<and> transfer \<in> set incomingTransfers))
         \<and> meets tf transfer))
   \<and> (meetsCriteria meets this candidate \<longleftrightarrow>
        matchFound meets tf candidate
        \<and> meetsCriteria meets (this\<lparr>getTransferFilter := None\<rparr>) candidate)
   \<and> (getOutgoingTransfer candidate = None
        \<and> (getIncomingTransfers candidate = None \<or> getIncomingTransfers candidate = Some [])
       \<longrightarrow> \<not> matchFound meets tf candidate \<and> \<not> meetsCriteria meets this candidate)"
proof (intro conjI)
  show m: "matchFound meets tf candidate \<longleftrightarrow>
        (\<exists>transfer.
           (getOutgoingTransfer candidate = Some transfer
            \<or> (\<exists>incomingTransfers. getIncomingTransfers candidate = Some incomingTransfers
                  \<and> transfer \<in> set incomingTransfers))
         \<and> meets tf transfer)"
    by (rule matchFound_iff)
  show s: "meetsCriteria meets this candidate \<longleftrightarrow>
        matchFound meets tf candidate
        \<and> meetsCriteria meets (this\<lparr>getTransferFilter := None\<rparr>) candidate"
    using assms by (auto simp: meetsCriteria_iff filterOnRest_iff)
  show "getOutgoingTransfer candidate = None
        \<and> (getIncomingTransfers candidate = None \<or> getIncomingTransfers candidate = Some [])
       \<longrightarrow> \<not> matchFound meets tf candidate \<and> \<not> meetsCriteria meets this candidate"
  proof
    assume none: "getOutgoingTransfer candidate = None
        \<and> (getIncomingTransfers candidate = None \<or> getIncomingTransfers candidate = Some [])"
    then have "\<not> matchFound meets tf candidate"
      unfolding m by auto
    then show "\<not> matchFound meets tf candidate \<and> \<not> meetsCriteria meets this candidate"
      using s by simp
  qed
qed

text \<open>
  The theorem at the nested filter "at least 5": incoming transfers 3 and 8 match, an
  outgoing transfer 7 matches, incoming transfers 3 and 4 do not, and neither does a
  candidate with an empty list of incoming transfers or with no transfers at all.
\<close>

theorem meetsCriteria_transferFilter_witness:
  "getTransferFilter (state_of (None :: nat MoneroTxWallet option) (Some (5 :: nat))) = Some 5
   \<and> meetsCriteria at_least (state_of None (Some 5)) candidate_abc
   \<and> meetsCriteria at_least (state_of None (Some 5)) (tx_unknown\<lparr>getOutgoingTransfer := Some 7\<rparr>)
   \<and> \<not> meetsCriteria at_least (state_of None (Some 5)) (tx_unknown\<lparr>getIncomingTransfers := Some [3, 4]\<rparr>)
   \<and> \<not> meetsCriteria at_least (state_of None (Some 5)) (tx_unknown\<lparr>getIncomingTransfers := Some []\<rparr>)
   \<and> \<not> meetsCriteria at_least (state_of None (Some 5)) tx_unknown"
proof -
  let ?F = "state_of (None :: nat MoneroTxWallet option) (Some (5 :: nat))"
  have t: "getTransferFilter ?F = Some 5" by (simp add: state_of_def)
  have r: "\<And>c. meetsCriteria at_least (?F\<lparr>getTransferFilter := None\<rparr>) c"
    by (simp add: meetsCriteria_unfold state_of_def)
  have c: "getIncomingTransfers candidate_abc = Some [3, 8]" "getOutgoingTransfer candidate_abc = None"
    by (simp_all add: example_defs)
  note th = meetsCriteria_transferFilter[OF t, of at_least]
  have "\<exists>transfer.
      (getOutgoingTransfer candidate_abc = Some transfer
       \<or> (\<exists>incomingTransfers. getIncomingTransfers candidate_abc = Some incomingTransfers
             \<and> transfer \<in> set incomingTransfers))
      \<and> at_least 5 transfer"
    using c by (intro exI[of _ 8]) (simp add: at_least_def)
  then have "matchFound at_least 5 candidate_abc"
    using th[of candidate_abc, THEN conjunct1] by blast
  then have 1: "meetsCriteria at_least ?F candidate_abc"
    using th[of candidate_abc, THEN conjunct2, THEN conjunct1] r by simp
  have "matchFound at_least 5 (tx_unknown\<lparr>getOutgoingTransfer := Some 7\<rparr>)"
    using th[of "tx_unknown\<lparr>getOutgoingTransfer := Some 7\<rparr>", THEN conjunct1]
    by (auto simp: at_least_def)
  then have 2: "meetsCriteria at_least ?F (tx_unknown\<lparr>getOutgoingTransfer := Some 7\<rparr>)"
    using th[of "tx_unknown\<lparr>getOutgoingTransfer := Some 7\<rparr>", THEN conjunct2, THEN conjunct1] r
    by simp
  have "\<not> matchFound at_least 5 (tx_unknown\<lparr>getIncomingTransfers := Some [3, 4]\<rparr>)"
    using th[of "tx_unknown\<lparr>getIncomingTransfers := Some [3, 4]\<rparr>", THEN conjunct1]
    by (auto simp: at_least_def tx_unknown_def)
  then have 3: "\<not> meetsCriteria at_least ?F (tx_unknown\<lparr>getIncomingTransfers := Some [3, 4]\<rparr>)"
    using th[of "tx_unknown\<lparr>getIncomingTransfers := Some [3, 4]\<rparr>", THEN conjunct2, THEN conjunct1]
    by simp
  have 4: "\<not> meetsCriteria at_least ?F (tx_unknown\<lparr>getIncomingTransfers := Some []\<rparr>)"
    using th[of "tx_unknown\<lparr>getIncomingTransfers := Some []\<rparr>", THEN conjunct2, THEN conjunct2]
    by (simp add: tx_unknown_def)
  have 5: "\<not> meetsCriteria at_least ?F tx_unknown"
    using th[of tx_unknown, THEN conjunct2, THEN conjunct2]
    by (simp add: tx_unknown_def)
  show ?thesis using t 1 2 3 4 5 by simp
qed

subsection \<open>The height clauses\<close>

text \<open>
  C6. For a filter with a height clause set (\<open>height\<close>, \<open>minHeight\<close> or \<open>maxHeight\<close>), a
  candidate whose block is absent, or whose block has no header, fails: \<open>meetsCriteria\<close>
  returns false, whatever the bound.
\<close>

theorem meetsCriteria_unknown_height:
  assumes "getHeight this \<noteq> None \<or> getMinHeight this \<noteq> None \<or> getMaxHeight this \<noteq> None"
    and "getBlock candidate = None
         \<or> (\<exists>block. getBlock candidate = Some block \<and> getHeader block = None)"
  shows "meetsCriteria meets this candidate = False"
proof -
  have "height_of candidate = None"
    using assms(2) by (auto simp: height_of_def)
  then have "\<not> filterOnRest this candidate"
    using assms(1) by (auto simp: filterOnRest_iff)
  then show ?thesis
    by (simp add: meetsCriteria_iff)
qed

text \<open>
  The theorem at \<open>minHeight = 0\<close>: a candidate with no block and a candidate whose block
  has no header are rejected, while a candidate at height 0 is accepted.
\<close>

theorem meetsCriteria_unknown_height_witness:
  "getMinHeight filter_minHeight_0 = Some 0
   \<and> getBlock (tx_unknown :: nat MoneroTxWallet) = None
   \<and> meetsCriteria at_least filter_minHeight_0 tx_unknown = False
   \<and> getHeader \<lparr>getHeader = None\<rparr> = None
   \<and> meetsCriteria at_least filter_minHeight_0 (tx_unknown\<lparr>getBlock := Some \<lparr>getHeader = None\<rparr>\<rparr>) = False
   \<and> meetsCriteria at_least filter_minHeight_0 (tx_unknown\<lparr>getBlock := Some (block_at 0)\<rparr>) = True"
proof -
  have h: "getMinHeight filter_minHeight_0 = Some 0" by (simp add: example_defs filter_minHeight_0_def)
  then have a: "getHeight filter_minHeight_0 \<noteq> None \<or> getMinHeight filter_minHeight_0 \<noteq> None
      \<or> getMaxHeight filter_minHeight_0 \<noteq> None" by simp
  have b1: "getBlock (tx_unknown :: nat MoneroTxWallet) = None" by (simp add: tx_unknown_def)
  have b2: "getBlock (tx_unknown\<lparr>getBlock := Some \<lparr>getHeader = None\<rparr>\<rparr> :: nat MoneroTxWallet)
      = Some \<lparr>getHeader = None\<rparr> \<and> getHeader \<lparr>getHeader = None\<rparr> = None"
    by simp
  have 1: "meetsCriteria at_least filter_minHeight_0 tx_unknown = False"
    using b1 by (intro meetsCriteria_unknown_height[OF a]) simp
  have 2: "meetsCriteria at_least filter_minHeight_0 (tx_unknown\<lparr>getBlock := Some \<lparr>getHeader = None\<rparr>\<rparr>) = False"
    using b2 by (intro meetsCriteria_unknown_height[OF a]) blast
  have 3: "meetsCriteria at_least filter_minHeight_0 (tx_unknown\<lparr>getBlock := Some (block_at 0)\<rparr>) = True"
    by (simp add: meetsCriteria_unfold example_defs filter_minHeight_0_def)
  show ?thesis using h b1 1 2 3 by simp
qed

subsection \<open>Monotonicity\<close>

text \<open>
  A clause that is set identically on the second filter, or not set on the first, holds
  for the first when it holds for the second.
\<close>

lemma setIdentically_clause:
  "setIdentically c1 c2 \<Longrightarrow> \<forall>v. c2 = Some v \<longrightarrow> P v \<Longrightarrow> \<forall>v. c1 = Some v \<longrightarrow> P v"
  by (auto simp: setIdentically_def)

lemma filterOnTxD:
  assumes "filterOnTx t tx"
  shows "getId t = None \<or> getId tx = getId t"
    and "getPaymentId t = None \<or> getPaymentId tx = getPaymentId t"
    and "getIsConfirmed t = None \<or> getIsConfirmed tx = getIsConfirmed t"
    and "getInTxPool t = None \<or> getInTxPool tx = getInTxPool t"
    and "getDoNotRelay t = None \<or> getDoNotRelay tx = getDoNotRelay t"
    and "getIsRelayed t = None \<or> getIsRelayed tx = getIsRelayed t"
    and "getIsFailed t = None \<or> getIsFailed tx = getIsFailed t"
    and "getIsCoinbase t = None \<or> getIsCoinbase tx = getIsCoinbase t"
  using assms unfolding filterOnTx_iff by simp_all

lemma filterOnTxI:
  assumes "getId t = None \<or> getId tx = getId t"
    and "getPaymentId t = None \<or> getPaymentId tx = getPaymentId t"
    and "getIsConfirmed t = None \<or> getIsConfirmed tx = getIsConfirmed t"
    and "getInTxPool t = None \<or> getInTxPool tx = getInTxPool t"
    and "getDoNotRelay t = None \<or> getDoNotRelay tx = getDoNotRelay t"
    and "getIsRelayed t = None \<or> getIsRelayed tx = getIsRelayed t"
    and "getIsFailed t = None \<or> getIsFailed tx = getIsFailed t"
    and "getIsCoinbase t = None \<or> getIsCoinbase tx = getIsCoinbase t"
  shows "filterOnTx t tx"
  unfolding filterOnTx_iff using assms by (intro conjI)

lemma filterOnTx_contained:
  assumes "setIdentically (templateField (Some t1) getId) (templateField t2 getId)"
    and "setIdentically (templateField (Some t1) getPaymentId) (templateField t2 getPaymentId)"
    and "setIdentically (templateField (Some t1) getIsConfirmed) (templateField t2 getIsConfirmed)"
    and "setIdentically (templateField (Some t1) getInTxPool) (templateField t2 getInTxPool)"
    and "setIdentically (templateField (Some t1) getDoNotRelay) (templateField t2 getDoNotRelay)"
    and "setIdentically (templateField (Some t1) getIsRelayed) (templateField t2 getIsRelayed)"
    and "setIdentically (templateField (Some t1) getIsFailed) (templateField t2 getIsFailed)"
    and "setIdentically (templateField (Some t1) getIsCoinbase) (templateField t2 getIsCoinbase)"
    and "\<forall>t. t2 = Some t \<longrightarrow> filterOnTx t candidate"
  shows "filterOnTx t1 candidate"
proof (cases t2)
  case None
  have unset: "\<And>field :: 'a MoneroTxWallet \<Rightarrow> 'b option.
      setIdentically (templateField (Some t1) field) (templateField t2 field) \<Longrightarrow>
      field t1 = None \<or> field candidate = field t1"
    using None by (auto simp: setIdentically_def templateField_def)
  show ?thesis
    by (rule filterOnTxI)
      (rule unset[OF assms(1)] unset[OF assms(2)] unset[OF assms(3)] unset[OF assms(4)]
        unset[OF assms(5)] unset[OF assms(6)] unset[OF assms(7)] unset[OF assms(8)])+
next
  case (Some t)
  then have "filterOnTx t candidate" using assms(9) by simp
  note f = filterOnTxD[OF this]
  have one: "\<And>field :: 'a MoneroTxWallet \<Rightarrow> 'b option.
      setIdentically (templateField (Some t1) field) (templateField t2 field) \<Longrightarrow>
      field t = None \<or> field candidate = field t \<Longrightarrow>
      field t1 = None \<or> field candidate = field t1"
    using Some by (auto simp: setIdentically_def templateField_def)
  show ?thesis
    by (rule filterOnTxI)
      (rule one[OF assms(1) f(1)] one[OF assms(2) f(2)] one[OF assms(3) f(3)]
        one[OF assms(4) f(4)] one[OF assms(5) f(5)] one[OF assms(6) f(6)]
        one[OF assms(7) f(7)] one[OF assms(8) f(8)])+
qed

lemma constraintsContainedD:
  assumes "constraintsContained F1 F2"
  shows "setIdentically (templateField (getTx F1) getId) (templateField (getTx F2) getId)"
    and "setIdentically (templateField (getTx F1) getPaymentId) (templateField (getTx F2) getPaymentId)"
    and "setIdentically (templateField (getTx F1) getIsConfirmed) (templateField (getTx F2) getIsConfirmed)"
    and "setIdentically (templateField (getTx F1) getInTxPool) (templateField (getTx F2) getInTxPool)"
    and "setIdentically (templateField (getTx F1) getDoNotRelay) (templateField (getTx F2) getDoNotRelay)"
    and "setIdentically (templateField (getTx F1) getIsRelayed) (templateField (getTx F2) getIsRelayed)"
    and "setIdentically (templateField (getTx F1) getIsFailed) (templateField (getTx F2) getIsFailed)"
    and "setIdentically (templateField (getTx F1) getIsCoinbase) (templateField (getTx F2) getIsCoinbase)"
    and "setIdentically (getTransferFilter F1) (getTransferFilter F2)"
    and "setIdentically (getHasPaymentId F1) (getHasPaymentId F2)"
    and "setIdentically (getHasOutgoingTransfer F1) (getHasOutgoingTransfer F2)"
    and "setIdentically (getHasIncomingTransfers F1) (getHasIncomingTransfers F2)"
    and "setIdentically (getTxIds F1) (getTxIds F2)"
    and "setIdentically (getPaymentIds F1) (getPaymentIds F2)"
    and "setIdentically (getHeight F1) (getHeight F2)"
    and "setIdentically (getMinHeight F1) (getMinHeight F2)"
    and "setIdentically (getMaxHeight F1) (getMaxHeight F2)"
  using assms unfolding constraintsContained_def by simp_all

lemma meetsCriteriaD:
  assumes "meetsCriteria meets this tx"
  shows "\<forall>t. getTx this = Some t \<longrightarrow> filterOnTx t tx"
    and "\<forall>tf. getTransferFilter this = Some tf \<longrightarrow> matchFound meets tf tx"
    and "\<forall>b. getHasPaymentId this = Some b \<longrightarrow> b = (getPaymentId tx \<noteq> None)"
    and "\<forall>b. getHasOutgoingTransfer this = Some b \<longrightarrow> b = (getOutgoingTransfer tx \<noteq> None)"
    and "\<forall>b. getHasIncomingTransfers this = Some b \<longrightarrow>
           b = (getIncomingTransfers tx \<noteq> None \<and> getIncomingTransfers tx \<noteq> Some [])"
    and "\<forall>ids. getTxIds this = Some ids \<longrightarrow> Array_includes ids (getId tx)"
    and "\<forall>ids. getPaymentIds this = Some ids \<longrightarrow> Array_includes ids (getPaymentId tx)"
    and "\<forall>h. getHeight this = Some h \<longrightarrow> height_of tx = Some h"
    and "\<forall>m. getMinHeight this = Some m \<longrightarrow> (\<exists>h. height_of tx = Some h \<and> m \<le> h)"
    and "\<forall>m. getMaxHeight this = Some m \<longrightarrow> (\<exists>h. height_of tx = Some h \<and> h \<le> m)"
  using assms unfolding meetsCriteria_iff filterOnRest_iff by simp_all

text \<open>
  C2. When every clause set on \<open>F1\<close> is set identically on \<open>F2\<close> (\<open>F2\<close> may set more), every
  candidate that \<open>F2\<close> accepts is accepted by \<open>F1\<close>: adding constraints to a filter never
  adds to what it matches.
\<close>

theorem meetsCriteria_monotone:
  assumes "constraintsContained F1 F2"
    and "meetsCriteria meets F2 candidate"
  shows "meetsCriteria meets F1 candidate"
proof -
  note c = constraintsContainedD[OF assms(1)]
  note m = meetsCriteriaD[OF assms(2)]
  have tx: "\<forall>t. getTx F1 = Some t \<longrightarrow> filterOnTx t candidate"
  proof (intro allI impI)
    fix t1 assume t1: "getTx F1 = Some t1"
    show "filterOnTx t1 candidate"
      using c(1-8)[unfolded t1] m(1) by (rule filterOnTx_contained)
  qed
  have tf: "\<forall>tf. getTransferFilter F1 = Some tf \<longrightarrow> matchFound meets tf candidate"
    using c(9) m(2) by (rule setIdentically_clause)
  have rest: "filterOnRest F1 candidate"
    unfolding filterOnRest_iff
  proof (intro conjI)
    show "\<forall>b. getHasPaymentId F1 = Some b \<longrightarrow> b = (getPaymentId candidate \<noteq> None)"
      using c(10) m(3) by (rule setIdentically_clause)
    show "\<forall>b. getHasOutgoingTransfer F1 = Some b \<longrightarrow> b = (getOutgoingTransfer candidate \<noteq> None)"
      using c(11) m(4) by (rule setIdentically_clause)
    show "\<forall>b. getHasIncomingTransfers F1 = Some b \<longrightarrow>
         b = (getIncomingTransfers candidate \<noteq> None \<and> getIncomingTransfers candidate \<noteq> Some [])"
      using c(12) m(5) by (rule setIdentically_clause)
    show "\<forall>ids. getTxIds F1 = Some ids \<longrightarrow> Array_includes ids (getId candidate)"
      using c(13) m(6) by (rule setIdentically_clause)
    show "\<forall>ids. getPaymentIds F1 = Some ids \<longrightarrow> Array_includes ids (getPaymentId candidate)"
      using c(14) m(7) by (rule setIdentically_clause)
    show "\<forall>h. getHeight F1 = Some h \<longrightarrow> height_of candidate = Some h"
      using c(15) m(8) by (rule setIdentically_clause)
    show "\<forall>m. getMinHeight F1 = Some m \<longrightarrow> (\<exists>h. height_of candidate = Some h \<and> m \<le> h)"
      using c(16) m(9) by (rule setIdentically_clause)
    show "\<forall>m. getMaxHeight F1 = Some m \<longrightarrow> (\<exists>h. height_of candidate = Some h \<and> h \<le> m)"
      using c(17) m(10) by (rule setIdentically_clause)
  qed
  show ?thesis
    unfolding meetsCriteria_iff using tx tf rest by blast
qed

text \<open>
  The theorem at a filter on the confirmation flag and a minimum height, and a filter
  that adds an id, a nested transfer filter and the presence of a payment id. The
  candidate accepted by the larger filter is accepted by the smaller one; a candidate
  with another id is accepted by the smaller filter only.
\<close>

theorem meetsCriteria_monotone_witness:
  "constraintsContained filter_small filter_large
   \<and> meetsCriteria at_least filter_large candidate_abc
   \<and> meetsCriteria at_least filter_small candidate_abc
   \<and> meetsCriteria at_least filter_small (candidate_abc\<lparr>getId := Some ''xyz''\<rparr>)
   \<and> \<not> meetsCriteria at_least filter_large (candidate_abc\<lparr>getId := Some ''xyz''\<rparr>)"
proof -
  have c: "constraintsContained filter_small filter_large"
    by (simp add: constraintsContained_def setIdentically_def templateField_def example_defs
        filter_small_def filter_large_def)
  have l: "meetsCriteria at_least filter_large candidate_abc"
    by (simp add: meetsCriteria_unfold example_defs filter_large_def)
  have s: "meetsCriteria at_least filter_small candidate_abc"
    using c l by (rule meetsCriteria_monotone)
  have x: "meetsCriteria at_least filter_small (candidate_abc\<lparr>getId := Some ''xyz''\<rparr>)"
    "\<not> meetsCriteria at_least filter_large (candidate_abc\<lparr>getId := Some ''xyz''\<rparr>)"
    by (simp_all add: meetsCriteria_unfold example_defs filter_small_def filter_large_def)
  show ?thesis using c l s x by simp
qed

subsection \<open>The constructor and the state at run time\<close>

text \<open>
  On a state that is well-typed, \<open>meetsCriteria\<close> on the run-time state returns what
  \<open>meetsCriteria\<close> on the typed state returns, and never throws.
\<close>

lemma incomingTransfers_loop_js_typed:
  "incomingTransfers_loop_js (\<lambda>transfer. Inr (meets transfer)) incomingTransfers
     = Inr (incomingTransfers_loop meets incomingTransfers)"
  by (induction incomingTransfers) auto

lemma call_meetsCriteria_typed:
  "call_meetsCriteria meets (JTransferFilter tf) = (\<lambda>transfer. Inr (meets tf transfer))"
  by (simp add: call_meetsCriteria_def fun_eq_iff)

lemma matchFound_js_typed:
  "matchFound_js (call_meetsCriteria meets (JTransferFilter tf)) candidate
     = Inr (matchFound meets tf candidate)"
  unfolding call_meetsCriteria_typed
  by (simp add: matchFound_js_def matchFound_def incomingTransfers_loop_js_typed
      split: option.splits)

lemma call_includes_typed:
  "call_includes expression (JArray (map JString ids)) x = Inr (Array_includes ids x)"
  by (cases x) (auto simp: call_includes_def Array_includes_def js_value_of_string_def)

lemma if_Inr: "(if c then Inr a else Inr b) = Inr (if c then a else b)"
  by simp

lemma js_state_of_sel:
  "state_hasPaymentId (js_state_of this) = js_value_of_flag (getHasPaymentId this)"
  "state_hasOutgoingTransfer (js_state_of this) = js_value_of_flag (getHasOutgoingTransfer this)"
  "state_hasIncomingTransfers (js_state_of this) = js_value_of_flag (getHasIncomingTransfers this)"
  "state_txIds (js_state_of this) = js_value_of_ids (getTxIds this)"
  "state_paymentIds (js_state_of this) = js_value_of_ids (getPaymentIds this)"
  "state_height (js_state_of this) = js_value_of_height (getHeight this)"
  "state_minHeight (js_state_of this) = js_value_of_height (getMinHeight this)"
  "state_maxHeight (js_state_of this) = js_value_of_height (getMaxHeight this)"
  "state_tx (js_state_of this) = js_value_of_tx (getTx this)"
  "state_transferFilter (js_state_of this) = js_value_of_transferFilter (getTransferFilter this)"
  by (simp_all add: js_state_of_def)

lemma flag_clause_typed:
  "(js_value_of_flag f \<noteq> JUndefined \<and> truthy (js_value_of_flag f) \<and> P)
     \<longleftrightarrow> (f \<noteq> None \<and> f = Some True \<and> P)"
  "(js_value_of_flag f \<noteq> JUndefined \<and> \<not> truthy (js_value_of_flag f) \<and> P)
     \<longleftrightarrow> (f \<noteq> None \<and> f \<noteq> Some True \<and> P)"
  by (cases f; simp add: js_value_of_flag_def)+

lemma includes_clause_typed:
  "(if js_value_of_ids ids \<noteq> JUndefined then call_includes expression (js_value_of_ids ids) x
    else Inr True)
   = Inr (\<not> (case ids of None \<Rightarrow> False | Some ids \<Rightarrow> \<not> Array_includes ids x))"
  by (cases ids) (simp_all add: js_value_of_ids_def call_includes_typed)

lemma height_clause_typed:
  "(js_value_of_height m \<noteq> JUndefined \<and> js_value_of_height h \<noteq> js_value_of_height m)
     \<longleftrightarrow> (m \<noteq> None \<and> h \<noteq> m)"
  by (cases m; cases h) (simp_all add: js_value_of_height_def)

lemma minHeight_clause_typed:
  "(if js_value_of_height m \<noteq> JUndefined
    then (case h of None \<Rightarrow> Inr True | Some h \<Rightarrow> height_lessThan R h (js_value_of_height m))
    else Inr False)
   = Inr (case m of None \<Rightarrow> False | Some m \<Rightarrow> (case h of None \<Rightarrow> True | Some h \<Rightarrow> h < m))"
  by (cases m; cases h) (simp_all add: js_value_of_height_def height_lessThan_def)

lemma maxHeight_clause_typed:
  "(if js_value_of_height m \<noteq> JUndefined
    then (case h of None \<Rightarrow> Inr True | Some h \<Rightarrow> height_greaterThan R h (js_value_of_height m))
    else Inr False)
   = Inr (case m of None \<Rightarrow> False | Some m \<Rightarrow> (case h of None \<Rightarrow> True | Some h \<Rightarrow> h > m))"
  by (cases m; cases h) (simp_all add: js_value_of_height_def height_greaterThan_def)

lemma filterOnRest_js_typed:
  "filterOnRest_js R (js_state_of this) candidate = Inr (filterOnRest this candidate)"
  unfolding filterOnRest_js_def filterOnRest_def js_state_of_sel flag_clause_typed
    includes_clause_typed height_clause_typed minHeight_clause_typed maxHeight_clause_typed
    sum.case if_Inr not_not
  by (rule refl)

lemma meetsCriteria_js_typed:
  "meetsCriteria_js meets R (js_state_of this) candidate
     = Inr (meetsCriteria meets this candidate)"
proof -
  show ?thesis
    unfolding meetsCriteria_js_def meetsCriteria_def filterOnRest_js_typed js_state_of_sel
    by (cases "getTx this"; cases "getTransferFilter this")
      (simp_all add: js_value_of_tx_def js_value_of_transferFilter_def call_filterOnTx_def
        matchFound_js_typed)
qed














end
